theory Spec2Isabelle
  imports Complex_Main
begin

section \<open>EFlexMultiAgentCooperationV4: devices, generators and the coordinator\<close>

text \<open>
  A shallow embedding of \<^verbatim>\<open>gym_eflex_agent/envs/EFlexMultiAgentCooperationV4.py\<close>.
  Python objects are records, every method takes the object and returns the updated
  one, and every exception the modelled code can raise is a value of \<open>error\<close>.
  Python numbers are idealised: tick counters and the production counter are \<open>int\<close>,
  powers, prices and rewards are \<open>real\<close> (the rounding of IEEE doubles is not modelled).
\<close>

datatype error = IndexError | ValueError | ZeroDivisionError

definition MAX_PRODUCTION_STEP :: int where
  "MAX_PRODUCTION_STEP = 20"

text \<open>Python's \<^verbatim>\<open>a / b\<close> on numbers raises on a zero divisor.\<close>

definition py_div :: "real \<Rightarrow> real \<Rightarrow> error + real" where
  "py_div a b = (if b = 0 then Inl ZeroDivisionError else Inr (a / b))"

subsection \<open>TOUGenerator and LoadProfile\<close>

record TOUGenerator =
  tou_steps :: "int list"
  tou_values :: "real list"
  tou_current_step :: int
  current_tou_value :: real

text \<open>
  The loop of \<^verbatim>\<open>TOUGenerator.step\<close>: \<^verbatim>\<open>for i, limit in enumerate(self.steps)\<close>,
  with the index \<open>i\<close>, the rest of \<^verbatim>\<open>self.steps\<close> and the value assigned so far.
  \<^verbatim>\<open>self.values[i]\<close> raises IndexError past the end of \<^verbatim>\<open>self.values\<close>.
\<close>

fun tou_scan :: "int \<Rightarrow> real list \<Rightarrow> nat \<Rightarrow> int list \<Rightarrow> real \<Rightarrow> error + real" where
  "tou_scan t vals i [] cur = Inr cur"
| "tou_scan t vals i (limit # rest) cur =
     (if t > limit then
        (if i < length vals then tou_scan t vals (Suc i) rest (vals ! i)
         else Inl IndexError)
      else Inr cur)"

definition TOUGenerator_init :: "int list \<Rightarrow> real list \<Rightarrow> error + TOUGenerator" where
  "TOUGenerator_init conf_steps conf_values =
     (case conf_values of
        [] \<Rightarrow> Inl IndexError
      | v # _ \<Rightarrow> Inr \<lparr>tou_steps = conf_steps, tou_values = conf_values,
                     tou_current_step = 0, current_tou_value = v\<rparr>)"

definition TOUGenerator_step :: "TOUGenerator \<Rightarrow> error + (real \<times> TOUGenerator)" where
  "TOUGenerator_step g =
     (let t = tou_current_step g + 1 in
      case tou_scan t (tou_values g) 0 (tou_steps g) (current_tou_value g) of
        Inl e \<Rightarrow> Inl e
      | Inr v \<Rightarrow> Inr (v, g\<lparr>tou_current_step := t, current_tou_value := v\<rparr>))"

text \<open>\<^verbatim>\<open>TOUGenerator.reset\<close> is \<^verbatim>\<open>pass\<close>.\<close>

definition TOUGenerator_reset :: "TOUGenerator \<Rightarrow> TOUGenerator" where
  "TOUGenerator_reset g = g"

record LoadProfile =
  lp_steps :: "int list"
  lp_values :: "real list"
  tolerance_factor :: real
  lp_current_step :: int
  current_max_load :: real

fun lp_scan :: "int \<Rightarrow> real list \<Rightarrow> real \<Rightarrow> nat \<Rightarrow> int list \<Rightarrow> real \<Rightarrow> error + real" where
  "lp_scan t vals tol i [] cur = Inr cur"
| "lp_scan t vals tol i (limit # rest) cur =
     (if t > limit then
        (if i < length vals then lp_scan t vals tol (Suc i) rest (vals ! i * (1 + tol))
         else Inl IndexError)
      else Inr cur)"

definition LoadProfile_init :: "int list \<Rightarrow> real list \<Rightarrow> real \<Rightarrow> error + LoadProfile" where
  "LoadProfile_init conf_steps conf_values tol =
     (case conf_values of
        [] \<Rightarrow> Inl IndexError
      | v # _ \<Rightarrow> Inr \<lparr>lp_steps = conf_steps, lp_values = conf_values, tolerance_factor = tol,
                     lp_current_step = 0, current_max_load = v * (1 + tol)\<rparr>)"

definition LoadProfile_step :: "LoadProfile \<Rightarrow> error + (real \<times> LoadProfile)" where
  "LoadProfile_step g =
     (let t = lp_current_step g + 1 in
      case lp_scan t (lp_values g) (tolerance_factor g) 0 (lp_steps g) (current_max_load g) of
        Inl e \<Rightarrow> Inl e
      | Inr v \<Rightarrow> Inr (v, g\<lparr>lp_current_step := t, current_max_load := v\<rparr>))"

definition LoadProfile_reset :: "LoadProfile \<Rightarrow> LoadProfile" where
  "LoadProfile_reset g = g"

text \<open>\<open>n\<close> consecutive calls of \<^verbatim>\<open>step()\<close>; an exception ends the run.\<close>

fun TOUGenerator_steps :: "nat \<Rightarrow> TOUGenerator \<Rightarrow> error + TOUGenerator" where
  "TOUGenerator_steps 0 g = Inr g"
| "TOUGenerator_steps (Suc n) g =
     (case TOUGenerator_step g of Inl e \<Rightarrow> Inl e | Inr (v, g') \<Rightarrow> TOUGenerator_steps n g')"

fun LoadProfile_steps :: "nat \<Rightarrow> LoadProfile \<Rightarrow> error + LoadProfile" where
  "LoadProfile_steps 0 g = Inr g"
| "LoadProfile_steps (Suc n) g =
     (case LoadProfile_step g of Inl e \<Rightarrow> Inl e | Inr (v, g') \<Rightarrow> LoadProfile_steps n g')"

subsection \<open>Production devices: EFlexAgent and its three power curves\<close>

datatype EFLEXAgentState =
  Aborted | Stopped | PowerOff | LoadChange | StandBy | StartedUp | Idle | Execute
  | Completed | Held | Suspended

text \<open>The members in declaration order, and the \<^verbatim>\<open>.value\<close> of each.\<close>

definition EFLEXAgentState_members :: "EFLEXAgentState list" where
  "EFLEXAgentState_members =
     [Aborted, Stopped, PowerOff, LoadChange, StandBy, StartedUp, Idle, Execute,
      Completed, Held, Suspended]"

fun EFLEXAgentState_value :: "EFLEXAgentState \<Rightarrow> nat" where
  "EFLEXAgentState_value Aborted = 1"
| "EFLEXAgentState_value Stopped = 0"
| "EFLEXAgentState_value PowerOff = 2"
| "EFLEXAgentState_value LoadChange = 3"
| "EFLEXAgentState_value StandBy = 4"
| "EFLEXAgentState_value StartedUp = 5"
| "EFLEXAgentState_value Idle = 6"
| "EFLEXAgentState_value Execute = 7"
| "EFLEXAgentState_value Completed = 8"
| "EFLEXAgentState_value Held = 9"
| "EFLEXAgentState_value Suspended = 10"

datatype EFLEXAgentTransition =
  T_SC | T_Abort | T_Clear | T_Reset | T_Stop | T_ChangeLoad | T_Hold | T_PowerOn
  | T_PowerOff | T_Standby | T_Start | T_Suspend | T_UnHold | T_Unsuspend

text \<open>\<^verbatim>\<open>EFLEXAgentTransition(action)\<close>: the member with that value, or ValueError.\<close>

definition EFLEXAgentTransition_of :: "int \<Rightarrow> error + EFLEXAgentTransition" where
  "EFLEXAgentTransition_of a =
     (if a = 0 then Inr T_SC else if a = 1 then Inr T_Abort else if a = 2 then Inr T_Clear
      else if a = 3 then Inr T_Reset else if a = 4 then Inr T_Stop
      else if a = 5 then Inr T_ChangeLoad else if a = 6 then Inr T_Hold
      else if a = 7 then Inr T_PowerOn else if a = 8 then Inr T_PowerOff
      else if a = 9 then Inr T_Standby else if a = 10 then Inr T_Start
      else if a = 11 then Inr T_Suspend else if a = 12 then Inr T_UnHold
      else if a = 13 then Inr T_Unsuspend else Inl ValueError)"

text \<open>
  The three subclasses \<^verbatim>\<open>EFlexAgentPConstant\<close>, \<^verbatim>\<open>EFlexAgentPLinear\<close> and
  \<^verbatim>\<open>EFlexAgentPLogistic\<close> differ in \<^verbatim>\<open>current_power\<close> only; the field \<open>kind\<close>
  says which one an object is. The base class cannot be constructed: its
  \<^verbatim>\<open>current_power\<close> raises in the \<^verbatim>\<open>reset()\<close> of \<^verbatim>\<open>__init__\<close>.
\<close>

datatype power_curve = PConstant | PLinear | PLogistic

record EFlexAgent =
  kind :: power_curve
  p_min :: real
  p_max :: real
  p_slope :: real
  current_state :: EFLEXAgentState
  current_reward :: real
  startStep :: int
  currentStep :: int
  production_count :: int
  max_allowed_power :: real

text \<open>The pair of assignments that ends every branch of \<^verbatim>\<open>_take_action\<close>.\<close>

definition goto :: "EFLEXAgentState \<Rightarrow> real \<Rightarrow> EFlexAgent \<Rightarrow> EFlexAgent" where
  "goto s r d = d\<lparr>current_state := s, current_reward := r\<rparr>"

definition mark_start :: "EFlexAgent \<Rightarrow> EFlexAgent" where
  "mark_start d = d\<lparr>startStep := currentStep d\<rparr>"

text \<open>
  \<^verbatim>\<open>EFlexAgent._take_action\<close>. The \<^verbatim>\<open>if\<close>/\<^verbatim>\<open>elif\<close> chain on the state has no
  branch for \<^verbatim>\<open>LoadChange\<close> and no final \<^verbatim>\<open>else\<close>: there nothing is assigned.
\<close>

definition EFlexAgent_take_action :: "EFlexAgent \<Rightarrow> EFLEXAgentTransition \<Rightarrow> EFlexAgent" where
  "EFlexAgent_take_action d action =
     (case current_state d of
        Aborted \<Rightarrow>
          (let d = mark_start d in
           if action = T_Clear then goto Stopped 1.0 d
           else goto Aborted 0.0 d)
      | Stopped \<Rightarrow>
          (let d = mark_start d in
           if action = T_Abort then goto Aborted (-0.1) d
           else if action = T_Reset then goto Idle 0.1 d
           else goto Stopped 0.0 d)
      | Idle \<Rightarrow>
          (if action = T_Abort then goto Aborted (-0.1) d
           else if action = T_Start then goto Execute 1.0 (mark_start d)
           else if action = T_PowerOff then goto PowerOff 0.0 d
           else if action = T_Standby then goto StandBy 0.0 d
           else if action = T_Stop then goto Stopped 0.0 d
           else if action = T_ChangeLoad then goto Idle 0.1 d
           else goto Idle 0.0 d)
      | PowerOff \<Rightarrow>
          (let d = mark_start d in
           if action = T_Abort then goto Aborted (-0.1) d
           else if action = T_PowerOn then goto StartedUp 0.0 d
           else if action = T_Stop then goto Stopped 0.0 d
           else goto PowerOff 0.0 d)
      | StandBy \<Rightarrow>
          (let d = mark_start d in
           if action = T_Abort then goto Aborted (-0.1) d
           else if action = T_PowerOn then goto StartedUp 0.1 d
           else if action = T_Stop then goto Stopped 0.0 d
           else goto StandBy 0.0 d)
      | StartedUp \<Rightarrow>
          (if action = T_Abort then goto Aborted (-0.1) d
           else if action = T_Reset then goto Idle 0.3 d
           else if action = T_Stop then goto Stopped 0.0 d
           else goto StartedUp 0.0 d)
      | Execute \<Rightarrow>
          (if action = T_Abort then goto Aborted (-0.1) d
           else if action = T_SC then
             (goto Completed 1.0 d)\<lparr>production_count := production_count d + 1\<rparr>
           else if action = T_Hold then goto Held 0.0 d
           else if action = T_Suspend then goto Suspended 0.0 d
           else if action = T_Stop then goto Stopped 0.0 d
           else if action = T_ChangeLoad then goto Execute 0.0 d
           else goto Execute 0.0 d)
      | Completed \<Rightarrow>
          (if action = T_Abort then goto Aborted (-0.1) d
           else if action = T_SC then goto Idle 1.0 d
           else if action = T_Stop then goto Stopped 0.0 d
           else goto Completed 0.0 d)
      | Held \<Rightarrow>
          (if action = T_Abort then goto Aborted (-0.1) d
           else if action = T_UnHold then goto Execute 0.1 d
           else if action = T_Suspend then goto Suspended 0.0 d
           else if action = T_Stop then goto Stopped 0.0 d
           else if action = T_ChangeLoad then goto Held 0.0 d
           else goto Held 0.0 d)
      | Suspended \<Rightarrow>
          (if action = T_Abort then goto Aborted (-0.1) d
           else if action = T_Unsuspend then goto Execute 0.1 d
           else if action = T_Hold then goto Held 0.0 d
           else if action = T_Stop then goto Stopped 0.0 d
           else if action = T_ChangeLoad then goto Suspended 0.0 d
           else goto Suspended 0.0 d)
      | LoadChange \<Rightarrow> d)"

text \<open>
  \<^verbatim>\<open>EFlexAgentPLogistic.sigmoid(x, k, l)\<close>; \<open>k\<close> is not used. \<^verbatim>\<open>math.exp\<close> is the
  real exponential here (its OverflowError on a large argument is not modelled).
\<close>

definition sigmoid :: "real \<Rightarrow> real \<Rightarrow> real \<Rightarrow> real" where
  "sigmoid x k l = l / (1 + exp (- l * x))"

definition EFlexAgent_current_power :: "EFlexAgent \<Rightarrow> real" where
  "EFlexAgent_current_power d =
     (if current_state d = Aborted \<or> current_state d = Stopped then 0.0
      else if current_state d = Execute \<or> current_state d = Completed then
        (case kind d of
           PConstant \<Rightarrow> p_max d
         | PLinear \<Rightarrow>
             (let delta = currentStep d - startStep d;
                  c_power = p_min d + real_of_int delta * p_slope d
              in if c_power > p_max d then p_max d else c_power)
         | PLogistic \<Rightarrow>
             (let delta = currentStep d - startStep d;
                  c_power = p_min d + sigmoid (real_of_int delta) (p_slope d) (p_max d)
              in if c_power > p_max d then p_max d else c_power))
      else p_min d)"

text \<open>\<^verbatim>\<open>observation_space.shape[0]\<close> is \<^verbatim>\<open>len(EFLEXAgentState) + 2\<close>.\<close>

definition EFlexAgent_obs_len :: nat where
  "EFlexAgent_obs_len = length EFLEXAgentState_members + 2"

definition EFlexAgent_get_obs :: "EFlexAgent \<Rightarrow> error + real list" where
  "EFlexAgent_get_obs d =
     (let obs = replicate EFlexAgent_obs_len (0::real);
          obs = obs[EFLEXAgentState_value (current_state d) := 1.0]
      in case py_div (EFlexAgent_current_power d) (max_allowed_power d) of
           Inl e \<Rightarrow> Inl e
         | Inr q \<Rightarrow> Inr (obs[EFlexAgent_obs_len - 1 := q]))"

definition EFlexAgent_get_done :: "EFlexAgent \<Rightarrow> bool" where
  "EFlexAgent_get_done d \<longleftrightarrow>
     current_state d = Aborted \<or> production_count d \<ge> MAX_PRODUCTION_STEP"

definition EFlexAgent_get_reward :: "EFlexAgent \<Rightarrow> real" where
  "EFlexAgent_get_reward d = current_reward d"

text \<open>
  \<^verbatim>\<open>step\<close> returns \<^verbatim>\<open>(ob, reward, episode_over, info)\<close>; the info string (a trace of
  the transition) is left out, the updated device is returned as last component.
\<close>

definition EFlexAgent_step ::
  "EFlexAgent \<Rightarrow> int \<Rightarrow> error + (real list \<times> real \<times> bool \<times> EFlexAgent)" where
  "EFlexAgent_step d action =
     (case EFLEXAgentTransition_of action of
        Inl e \<Rightarrow> Inl e
      | Inr act_enum \<Rightarrow>
          (let d = EFlexAgent_take_action d act_enum;
               reward = EFlexAgent_get_reward d
           in case EFlexAgent_get_obs d of
                Inl e \<Rightarrow> Inl e
              | Inr ob \<Rightarrow>
                  Inr (ob, reward, EFlexAgent_get_done d,
                       d\<lparr>currentStep := currentStep d + 1\<rparr>)))"

definition EFlexAgent_reset :: "EFlexAgent \<Rightarrow> error + (real list \<times> EFlexAgent)" where
  "EFlexAgent_reset d =
     (let d = d\<lparr>current_state := Stopped, current_reward := 0.0, currentStep := 0\<rparr>;
          d = d\<lparr>startStep := currentStep d\<rparr>;
          d = d\<lparr>production_count := 0\<rparr>
      in case EFlexAgent_get_obs d of
           Inl e \<Rightarrow> Inl e
         | Inr ob \<Rightarrow> Inr (ob, d))"

text \<open>
  \<^verbatim>\<open>__init__(agent_conf, name, max_allowed_power)\<close>: the fields are assigned, then
  \<^verbatim>\<open>reset()\<close> runs, then the counters are assigned again. \<^verbatim>\<open>reset()\<close> computes an
  observation, so the constructor raises when \<^verbatim>\<open>max_allowed_power\<close> is zero.
\<close>

definition EFlexAgent_init ::
  "power_curve \<Rightarrow> real \<Rightarrow> real \<Rightarrow> real \<Rightarrow> real \<Rightarrow> error + EFlexAgent" where
  "EFlexAgent_init k conf_p_min conf_p_max conf_p_slope mx =
     (case EFlexAgent_reset
             \<lparr>kind = k, p_min = conf_p_min, p_max = conf_p_max, p_slope = conf_p_slope,
              current_state = Stopped, current_reward = 0.0, startStep = 0,
              currentStep = 0, production_count = 0, max_allowed_power = mx\<rparr> of
        Inl e \<Rightarrow> Inl e
      | Inr (ob, d) \<Rightarrow> Inr (d\<lparr>startStep := 0, currentStep := 0, production_count := 0\<rparr>))"

subsection \<open>EFlexEnergyStorageAgent\<close>

datatype EFLEXEnergyStorageAgentState = ES_Aborted | ES_Stopped | ES_Charging | ES_Discharging

definition EFLEXEnergyStorageAgentState_members :: "EFLEXEnergyStorageAgentState list" where
  "EFLEXEnergyStorageAgentState_members = [ES_Aborted, ES_Stopped, ES_Charging, ES_Discharging]"

fun EFLEXEnergyStorageAgentState_value :: "EFLEXEnergyStorageAgentState \<Rightarrow> nat" where
  "EFLEXEnergyStorageAgentState_value ES_Aborted = 1"
| "EFLEXEnergyStorageAgentState_value ES_Stopped = 0"
| "EFLEXEnergyStorageAgentState_value ES_Charging = 2"
| "EFLEXEnergyStorageAgentState_value ES_Discharging = 3"

datatype EFLEXEnergyStorageAgentTransition =
  EST_SC | EST_Abort | EST_Clear | EST_Charge | EST_Stop | EST_Discharge

definition EFLEXEnergyStorageAgentTransition_of ::
  "int \<Rightarrow> error + EFLEXEnergyStorageAgentTransition" where
  "EFLEXEnergyStorageAgentTransition_of a =
     (if a = 0 then Inr EST_SC else if a = 1 then Inr EST_Abort
      else if a = 2 then Inr EST_Clear else if a = 3 then Inr EST_Charge
      else if a = 4 then Inr EST_Stop else if a = 5 then Inr EST_Discharge
      else Inl ValueError)"

record EFlexEnergyStorageAgent =
  es_p_min :: real
  es_p_max :: real
  es_p_slope :: real
  es_current_state :: EFLEXEnergyStorageAgentState
  es_current_reward :: real
  es_startStep :: int
  es_currentStep :: int
  charging_level :: real
  es_max_allowed_power :: real

definition es_goto ::
  "EFLEXEnergyStorageAgentState \<Rightarrow> real \<Rightarrow> EFlexEnergyStorageAgent \<Rightarrow> EFlexEnergyStorageAgent"
  where
  "es_goto s r d = d\<lparr>es_current_state := s, es_current_reward := r\<rparr>"

text \<open>
  \<^verbatim>\<open>0.5 * (1 - ((self.p_max - self.charging_level) ** 2 / (self.p_max ** 2)))\<close>;
  the division raises when \<^verbatim>\<open>p_max\<close> is zero.
\<close>

definition es_val :: "EFlexEnergyStorageAgent \<Rightarrow> error + real" where
  "es_val d =
     (case py_div ((es_p_max d - charging_level d) ^ 2) (es_p_max d ^ 2) of
        Inl e \<Rightarrow> Inl e
      | Inr q \<Rightarrow> Inr (0.5 * (1 - q)))"

text \<open>
  \<^verbatim>\<open>EFlexEnergyStorageAgent._take_action\<close>. The update of \<^verbatim>\<open>charging_level\<close>
  follows the inner \<^verbatim>\<open>if\<close> chain of the Charging and of the Discharging branch.
\<close>

definition EFlexEnergyStorageAgent_take_action ::
  "EFlexEnergyStorageAgent \<Rightarrow> EFLEXEnergyStorageAgentTransition
     \<Rightarrow> error + EFlexEnergyStorageAgent" where
  "EFlexEnergyStorageAgent_take_action d action =
     (case es_current_state d of
        ES_Aborted \<Rightarrow>
          (let d = d\<lparr>es_startStep := es_currentStep d\<rparr> in
           if action = EST_Clear then Inr (es_goto ES_Stopped 1.0 d)
           else Inr (es_goto ES_Aborted 0.0 d))
      | ES_Stopped \<Rightarrow>
          (let d = d\<lparr>es_startStep := es_currentStep d\<rparr> in
           if action = EST_Abort then Inr (es_goto ES_Aborted (-0.1) d)
           else if action = EST_Charge then Inr (es_goto ES_Charging 0.1 d)
           else if action = EST_Discharge then Inr (es_goto ES_Discharging 0.1 d)
           else Inr (es_goto ES_Stopped 0.0 d))
      | ES_Charging \<Rightarrow>
          (case (if action = EST_Abort then Inr (es_goto ES_Aborted (-0.1) d)
                 else if action = EST_Stop then Inr (es_goto ES_Stopped 0.0 d)
                 else if action = EST_Discharge then
                   (case es_val d of Inl e \<Rightarrow> Inl e
                    | Inr val \<Rightarrow> Inr (es_goto ES_Discharging val d))
                 else
                   (case es_val d of Inl e \<Rightarrow> Inl e
                    | Inr val \<Rightarrow> Inr (es_goto ES_Charging val d))) of
             Inl e \<Rightarrow> Inl e
           | Inr d \<Rightarrow>
               (let d = d\<lparr>charging_level := charging_level d + es_p_slope d\<rparr> in
                if charging_level d > es_p_max d
                then Inr (d\<lparr>charging_level := es_p_max d\<rparr>) else Inr d))
      | ES_Discharging \<Rightarrow>
          (case (if action = EST_Abort then Inr (es_goto ES_Aborted (-0.1) d)
                 else if action = EST_Stop then Inr (es_goto ES_Stopped 0.0 d)
                 else if action = EST_Charge then
                   (case es_val d of Inl e \<Rightarrow> Inl e
                    | Inr val \<Rightarrow> Inr (es_goto ES_Charging val d))
                 else
                   (case es_val d of Inl e \<Rightarrow> Inl e
                    | Inr val \<Rightarrow> Inr (es_goto ES_Discharging val d))) of
             Inl e \<Rightarrow> Inl e
           | Inr d \<Rightarrow>
               (let d = d\<lparr>charging_level := charging_level d - es_p_slope d\<rparr> in
                if charging_level d < es_p_min d
                then Inr (d\<lparr>charging_level := es_p_min d\<rparr>) else Inr d)))"

definition EFlexEnergyStorageAgent_current_power :: "EFlexEnergyStorageAgent \<Rightarrow> real" where
  "EFlexEnergyStorageAgent_current_power d =
     (if es_current_state d = ES_Aborted \<or> es_current_state d = ES_Stopped then 0.0
      else if es_current_state d = ES_Charging then
        (if charging_level d < es_p_max d then (es_p_max d - es_p_min d) / 2 else 0.0)
      else if es_current_state d = ES_Discharging then
        (if charging_level d > es_p_min d then - (es_p_max d - es_p_min d) / 2 else 0.0)
      else 0)"

definition EFlexEnergyStorageAgent_obs_len :: nat where
  "EFlexEnergyStorageAgent_obs_len = length EFLEXEnergyStorageAgentState_members + 2"

definition EFlexEnergyStorageAgent_get_obs :: "EFlexEnergyStorageAgent \<Rightarrow> error + real list" where
  "EFlexEnergyStorageAgent_get_obs d =
     (let obs = replicate EFlexEnergyStorageAgent_obs_len (0::real);
          obs = obs[EFLEXEnergyStorageAgentState_value (es_current_state d) := 1.0]
      in case py_div (EFlexEnergyStorageAgent_current_power d) (es_max_allowed_power d) of
           Inl e \<Rightarrow> Inl e
         | Inr q \<Rightarrow> Inr (obs[EFlexEnergyStorageAgent_obs_len - 1 := q]))"

definition EFlexEnergyStorageAgent_get_done :: "EFlexEnergyStorageAgent \<Rightarrow> bool" where
  "EFlexEnergyStorageAgent_get_done d \<longleftrightarrow> es_current_state d = ES_Aborted"

definition EFlexEnergyStorageAgent_step ::
  "EFlexEnergyStorageAgent \<Rightarrow> int
     \<Rightarrow> error + (real list \<times> real \<times> bool \<times> EFlexEnergyStorageAgent)" where
  "EFlexEnergyStorageAgent_step d action =
     (case EFLEXEnergyStorageAgentTransition_of action of
        Inl e \<Rightarrow> Inl e
      | Inr act_enum \<Rightarrow>
          (case EFlexEnergyStorageAgent_take_action d act_enum of
             Inl e \<Rightarrow> Inl e
           | Inr d \<Rightarrow>
               (let reward = es_current_reward d
                in case EFlexEnergyStorageAgent_get_obs d of
                     Inl e \<Rightarrow> Inl e
                   | Inr ob \<Rightarrow>
                       Inr (ob, reward, EFlexEnergyStorageAgent_get_done d,
                            d\<lparr>es_currentStep := es_currentStep d + 1\<rparr>))))"

text \<open>\<^verbatim>\<open>reset\<close> assigns the state, the reward and the two step counters, nothing else.\<close>

definition EFlexEnergyStorageAgent_reset ::
  "EFlexEnergyStorageAgent \<Rightarrow> error + (real list \<times> EFlexEnergyStorageAgent)" where
  "EFlexEnergyStorageAgent_reset d =
     (let d = d\<lparr>es_current_state := ES_Stopped, es_current_reward := 0.0,
                es_currentStep := 0\<rparr>;
          d = d\<lparr>es_startStep := es_currentStep d\<rparr>
      in case EFlexEnergyStorageAgent_get_obs d of
           Inl e \<Rightarrow> Inl e
         | Inr ob \<Rightarrow> Inr (ob, d))"

text \<open>
  \<^verbatim>\<open>__init__\<close> calls \<^verbatim>\<open>reset()\<close> before \<^verbatim>\<open>charging_level\<close> exists (the observation
  of a Stopped device does not read it) and assigns \<^verbatim>\<open>charging_level = 0\<close> last.
\<close>

definition EFlexEnergyStorageAgent_init ::
  "real \<Rightarrow> real \<Rightarrow> real \<Rightarrow> real \<Rightarrow> error + EFlexEnergyStorageAgent" where
  "EFlexEnergyStorageAgent_init conf_p_min conf_p_max conf_p_slope mx =
     (case EFlexEnergyStorageAgent_reset
             \<lparr>es_p_min = conf_p_min, es_p_max = conf_p_max, es_p_slope = conf_p_slope,
              es_current_state = ES_Stopped, es_current_reward = 0.0, es_startStep = 0,
              es_currentStep = 0, charging_level = 0, es_max_allowed_power = mx\<rparr> of
        Inl e \<Rightarrow> Inl e
      | Inr (ob, d) \<Rightarrow> Inr (d\<lparr>es_startStep := 0, es_currentStep := 0, charging_level := 0\<rparr>))"

subsection \<open>EFLEXEnergyGeneratorAgent\<close>

datatype EFLEXEnergyGeneratorAgentState = EG_Aborted | EG_Stopped | EG_Generating

definition EFLEXEnergyGeneratorAgentState_members :: "EFLEXEnergyGeneratorAgentState list" where
  "EFLEXEnergyGeneratorAgentState_members = [EG_Aborted, EG_Stopped, EG_Generating]"

fun EFLEXEnergyGeneratorAgentState_value :: "EFLEXEnergyGeneratorAgentState \<Rightarrow> nat" where
  "EFLEXEnergyGeneratorAgentState_value EG_Aborted = 1"
| "EFLEXEnergyGeneratorAgentState_value EG_Stopped = 0"
| "EFLEXEnergyGeneratorAgentState_value EG_Generating = 2"

datatype EFLEXEnergyGeneratorAgentTransition =
  EGT_SC | EGT_Abort | EGT_Clear | EGT_Generate | EGT_Stop

definition EFLEXEnergyGeneratorAgentTransition_of ::
  "int \<Rightarrow> error + EFLEXEnergyGeneratorAgentTransition" where
  "EFLEXEnergyGeneratorAgentTransition_of a =
     (if a = 0 then Inr EGT_SC else if a = 1 then Inr EGT_Abort
      else if a = 2 then Inr EGT_Clear else if a = 3 then Inr EGT_Generate
      else if a = 4 then Inr EGT_Stop else Inl ValueError)"

record EFLEXEnergyGeneratorAgent =
  eg_p_min :: real
  eg_p_max :: real
  eg_p_slope :: real
  eg_current_state :: EFLEXEnergyGeneratorAgentState
  eg_current_reward :: real
  eg_startStep :: int
  eg_currentStep :: int
  eg_last_power :: real
  eg_max_allowed_power :: real

definition eg_goto ::
  "EFLEXEnergyGeneratorAgentState \<Rightarrow> real \<Rightarrow> EFLEXEnergyGeneratorAgent
     \<Rightarrow> EFLEXEnergyGeneratorAgent" where
  "eg_goto s r d = d\<lparr>eg_current_state := s, eg_current_reward := r\<rparr>"

definition EFLEXEnergyGeneratorAgent_current_power :: "EFLEXEnergyGeneratorAgent \<Rightarrow> real" where
  "EFLEXEnergyGeneratorAgent_current_power d =
     (if eg_current_state d = EG_Aborted \<or> eg_current_state d = EG_Stopped then 0.0
      else if eg_current_state d = EG_Generating then
        (let c_power = eg_last_power d + eg_p_slope d
         in if c_power > eg_p_max d then - eg_p_max d else - c_power)
      else 0)"

text \<open>
  In the last branch the state is assigned first, so \<^verbatim>\<open>self.current_power\<close> is read
  in state Generating; the division raises when \<^verbatim>\<open>p_max\<close> is zero.
\<close>

definition EFLEXEnergyGeneratorAgent_take_action ::
  "EFLEXEnergyGeneratorAgent \<Rightarrow> EFLEXEnergyGeneratorAgentTransition
     \<Rightarrow> error + EFLEXEnergyGeneratorAgent" where
  "EFLEXEnergyGeneratorAgent_take_action d action =
     (case eg_current_state d of
        EG_Aborted \<Rightarrow>
          (let d = d\<lparr>eg_startStep := eg_currentStep d\<rparr> in
           if action = EGT_Clear then Inr (eg_goto EG_Stopped 1.0 d)
           else Inr (eg_goto EG_Aborted 0.0 d))
      | EG_Stopped \<Rightarrow>
          (let d = d\<lparr>eg_startStep := eg_currentStep d\<rparr> in
           if action = EGT_Abort then Inr (eg_goto EG_Aborted (-0.1) d)
           else if action = EGT_Generate then Inr (eg_goto EG_Generating 0.1 d)
           else Inr (eg_goto EG_Stopped 0.0 d))
      | EG_Generating \<Rightarrow>
          (if action = EGT_Abort then Inr (eg_goto EG_Aborted (-0.1) d)
           else if action = EGT_Stop then Inr (eg_goto EG_Stopped 0.0 d)
           else
             (let d = d\<lparr>eg_current_state := EG_Generating\<rparr> in
              case py_div (EFLEXEnergyGeneratorAgent_current_power d) (eg_p_max d) of
                Inl e \<Rightarrow> Inl e
              | Inr q \<Rightarrow> Inr (d\<lparr>eg_current_reward := 0.2 * \<bar>q\<bar>\<rparr>))))"

definition EFLEXEnergyGeneratorAgent_obs_len :: nat where
  "EFLEXEnergyGeneratorAgent_obs_len = length EFLEXEnergyGeneratorAgentState_members + 2"

definition EFLEXEnergyGeneratorAgent_get_obs :: "EFLEXEnergyGeneratorAgent \<Rightarrow> error + real list"
  where
  "EFLEXEnergyGeneratorAgent_get_obs d =
     (let obs = replicate EFLEXEnergyGeneratorAgent_obs_len (0::real);
          obs = obs[EFLEXEnergyGeneratorAgentState_value (eg_current_state d) := 1.0]
      in case py_div (EFLEXEnergyGeneratorAgent_current_power d) (eg_max_allowed_power d) of
           Inl e \<Rightarrow> Inl e
         | Inr q \<Rightarrow> Inr (obs[EFLEXEnergyGeneratorAgent_obs_len - 1 := q]))"

definition EFLEXEnergyGeneratorAgent_get_done :: "EFLEXEnergyGeneratorAgent \<Rightarrow> bool" where
  "EFLEXEnergyGeneratorAgent_get_done d \<longleftrightarrow> eg_current_state d = EG_Aborted"

text \<open>After the tick counter, \<^verbatim>\<open>step\<close> stores \<^verbatim>\<open>abs(self.current_power)\<close>.\<close>

definition EFLEXEnergyGeneratorAgent_step ::
  "EFLEXEnergyGeneratorAgent \<Rightarrow> int
     \<Rightarrow> error + (real list \<times> real \<times> bool \<times> EFLEXEnergyGeneratorAgent)" where
  "EFLEXEnergyGeneratorAgent_step d action =
     (case EFLEXEnergyGeneratorAgentTransition_of action of
        Inl e \<Rightarrow> Inl e
      | Inr act_enum \<Rightarrow>
          (case EFLEXEnergyGeneratorAgent_take_action d act_enum of
             Inl e \<Rightarrow> Inl e
           | Inr d \<Rightarrow>
               (let reward = eg_current_reward d
                in case EFLEXEnergyGeneratorAgent_get_obs d of
                     Inl e \<Rightarrow> Inl e
                   | Inr ob \<Rightarrow>
                       (let episode_over = EFLEXEnergyGeneratorAgent_get_done d;
                            d = d\<lparr>eg_currentStep := eg_currentStep d + 1\<rparr>;
                            d = d\<lparr>eg_last_power := \<bar>EFLEXEnergyGeneratorAgent_current_power d\<bar>\<rparr>
                        in Inr (ob, reward, episode_over, d)))))"

definition EFLEXEnergyGeneratorAgent_reset ::
  "EFLEXEnergyGeneratorAgent \<Rightarrow> error + (real list \<times> EFLEXEnergyGeneratorAgent)" where
  "EFLEXEnergyGeneratorAgent_reset d =
     (let d = d\<lparr>eg_current_state := EG_Stopped, eg_current_reward := 0.0,
                eg_currentStep := 0\<rparr>;
          d = d\<lparr>eg_startStep := eg_currentStep d\<rparr>
      in case EFLEXEnergyGeneratorAgent_get_obs d of
           Inl e \<Rightarrow> Inl e
         | Inr ob \<Rightarrow> Inr (ob, d))"

definition EFLEXEnergyGeneratorAgent_init ::
  "real \<Rightarrow> real \<Rightarrow> real \<Rightarrow> real \<Rightarrow> error + EFLEXEnergyGeneratorAgent" where
  "EFLEXEnergyGeneratorAgent_init conf_p_min conf_p_max conf_p_slope mx =
     (case EFLEXEnergyGeneratorAgent_reset
             \<lparr>eg_p_min = conf_p_min, eg_p_max = conf_p_max, eg_p_slope = conf_p_slope,
              eg_current_state = EG_Stopped, eg_current_reward = 0.0, eg_startStep = 0,
              eg_currentStep = 0, eg_last_power = 0, eg_max_allowed_power = mx\<rparr> of
        Inl e \<Rightarrow> Inl e
      | Inr (ob, d) \<Rightarrow> Inr (d\<lparr>eg_startStep := 0, eg_currentStep := 0, eg_last_power := 0\<rparr>))"

subsection \<open>EFLEXEnergyMainGridAgent\<close>

datatype EFLEXEnergyMainGridAgentState = MG_Aborted | MG_Stopped | MG_Buying | MG_Selling

definition EFLEXEnergyMainGridAgentState_members :: "EFLEXEnergyMainGridAgentState list" where
  "EFLEXEnergyMainGridAgentState_members = [MG_Aborted, MG_Stopped, MG_Buying, MG_Selling]"

fun EFLEXEnergyMainGridAgentState_value :: "EFLEXEnergyMainGridAgentState \<Rightarrow> nat" where
  "EFLEXEnergyMainGridAgentState_value MG_Aborted = 0"
| "EFLEXEnergyMainGridAgentState_value MG_Stopped = 1"
| "EFLEXEnergyMainGridAgentState_value MG_Buying = 2"
| "EFLEXEnergyMainGridAgentState_value MG_Selling = 4"

datatype EFLEXEnergyMainGridAgentTransition =
  MGT_SC | MGT_Abort | MGT_Clear | MGT_Stop | MGT_Buy | MGT_Sell

definition EFLEXEnergyMainGridAgentTransition_of ::
  "int \<Rightarrow> error + EFLEXEnergyMainGridAgentTransition" where
  "EFLEXEnergyMainGridAgentTransition_of a =
     (if a = 0 then Inr MGT_SC else if a = 1 then Inr MGT_Abort
      else if a = 2 then Inr MGT_Clear else if a = 3 then Inr MGT_Stop
      else if a = 4 then Inr MGT_Buy else if a = 5 then Inr MGT_Sell
      else Inl ValueError)"

record EFLEXEnergyMainGridAgent =
  mg_p_min :: real
  mg_p_max :: real
  mg_p_slope :: real
  mg_current_state :: EFLEXEnergyMainGridAgentState
  mg_current_reward :: real
  mg_startStep :: int
  mg_currentStep :: int
  mg_last_power :: real
  mg_max_allowed_power :: real

definition mg_goto ::
  "EFLEXEnergyMainGridAgentState \<Rightarrow> real \<Rightarrow> EFLEXEnergyMainGridAgent
     \<Rightarrow> EFLEXEnergyMainGridAgent" where
  "mg_goto s r d = d\<lparr>mg_current_state := s, mg_current_reward := r\<rparr>"

text \<open>
  \<^verbatim>\<open>EFLEXEnergyMainGridAgent._take_action\<close>: in Aborted the branch of
  \<^verbatim>\<open>Clear\<close> is \<^verbatim>\<open>pass\<close> (its two assignments are commented out).
\<close>

definition EFLEXEnergyMainGridAgent_take_action ::
  "EFLEXEnergyMainGridAgent \<Rightarrow> EFLEXEnergyMainGridAgentTransition \<Rightarrow> EFLEXEnergyMainGridAgent"
  where
  "EFLEXEnergyMainGridAgent_take_action d action =
     (case mg_current_state d of
        MG_Aborted \<Rightarrow>
          (let d = d\<lparr>mg_startStep := mg_currentStep d\<rparr> in
           if action = MGT_Clear then d
           else mg_goto MG_Aborted 0.0 d)
      | MG_Stopped \<Rightarrow>
          (let d = d\<lparr>mg_startStep := mg_currentStep d\<rparr> in
           if action = MGT_Abort then mg_goto MG_Aborted (-0.1) d
           else if action = MGT_Buy then mg_goto MG_Buying 0.01 d
           else if action = MGT_Sell then mg_goto MG_Selling 0.01 d
           else mg_goto MG_Stopped 0.0 d)
      | MG_Buying \<Rightarrow>
          (if action = MGT_Abort then mg_goto MG_Aborted (-0.1) d
           else if action = MGT_Stop then mg_goto MG_Stopped (-0.01) d
           else if action = MGT_Sell then mg_goto MG_Selling 0.0 d
           else mg_goto MG_Buying (-0.01) d)
      | MG_Selling \<Rightarrow>
          (if action = MGT_Abort then mg_goto MG_Aborted (-0.1) d
           else if action = MGT_Stop then mg_goto MG_Stopped (-0.01) d
           else if action = MGT_Buy then mg_goto MG_Buying 0.0 d
           else mg_goto MG_Selling 0.01 d))"

definition EFLEXEnergyMainGridAgent_current_power :: "EFLEXEnergyMainGridAgent \<Rightarrow> real" where
  "EFLEXEnergyMainGridAgent_current_power d =
     (if mg_current_state d = MG_Aborted \<or> mg_current_state d = MG_Stopped then 0.0
      else if mg_current_state d = MG_Buying then - mg_p_max d
      else if mg_current_state d = MG_Selling then mg_p_max d
      else 0)"

definition EFLEXEnergyMainGridAgent_obs_len :: nat where
  "EFLEXEnergyMainGridAgent_obs_len = length EFLEXEnergyMainGridAgentState_members + 2"

definition EFLEXEnergyMainGridAgent_get_obs :: "EFLEXEnergyMainGridAgent \<Rightarrow> error + real list"
  where
  "EFLEXEnergyMainGridAgent_get_obs d =
     (let obs = replicate EFLEXEnergyMainGridAgent_obs_len (0::real);
          obs = obs[EFLEXEnergyMainGridAgentState_value (mg_current_state d) := 1.0]
      in case py_div (EFLEXEnergyMainGridAgent_current_power d) (mg_max_allowed_power d) of
           Inl e \<Rightarrow> Inl e
         | Inr q \<Rightarrow> Inr (obs[EFLEXEnergyMainGridAgent_obs_len - 1 := q]))"

definition EFLEXEnergyMainGridAgent_get_done :: "EFLEXEnergyMainGridAgent \<Rightarrow> bool" where
  "EFLEXEnergyMainGridAgent_get_done d \<longleftrightarrow> mg_current_state d = MG_Aborted"

definition EFLEXEnergyMainGridAgent_step ::
  "EFLEXEnergyMainGridAgent \<Rightarrow> int
     \<Rightarrow> error + (real list \<times> real \<times> bool \<times> EFLEXEnergyMainGridAgent)" where
  "EFLEXEnergyMainGridAgent_step d action =
     (case EFLEXEnergyMainGridAgentTransition_of action of
        Inl e \<Rightarrow> Inl e
      | Inr act_enum \<Rightarrow>
          (let d = EFLEXEnergyMainGridAgent_take_action d act_enum;
               reward = mg_current_reward d
           in case EFLEXEnergyMainGridAgent_get_obs d of
                Inl e \<Rightarrow> Inl e
              | Inr ob \<Rightarrow>
                  (let episode_over = EFLEXEnergyMainGridAgent_get_done d;
                       d = d\<lparr>mg_currentStep := mg_currentStep d + 1\<rparr>;
                       d = d\<lparr>mg_last_power := EFLEXEnergyMainGridAgent_current_power d\<rparr>
                   in Inr (ob, reward, episode_over, d))))"

definition EFLEXEnergyMainGridAgent_reset ::
  "EFLEXEnergyMainGridAgent \<Rightarrow> error + (real list \<times> EFLEXEnergyMainGridAgent)" where
  "EFLEXEnergyMainGridAgent_reset d =
     (let d = d\<lparr>mg_current_state := MG_Stopped, mg_current_reward := 0.0,
                mg_currentStep := 0\<rparr>;
          d = d\<lparr>mg_startStep := mg_currentStep d\<rparr>
      in case EFLEXEnergyMainGridAgent_get_obs d of
           Inl e \<Rightarrow> Inl e
         | Inr ob \<Rightarrow> Inr (ob, d))"

definition EFLEXEnergyMainGridAgent_init ::
  "real \<Rightarrow> real \<Rightarrow> real \<Rightarrow> real \<Rightarrow> error + EFLEXEnergyMainGridAgent" where
  "EFLEXEnergyMainGridAgent_init conf_p_min conf_p_max conf_p_slope mx =
     (case EFLEXEnergyMainGridAgent_reset
             \<lparr>mg_p_min = conf_p_min, mg_p_max = conf_p_max, mg_p_slope = conf_p_slope,
              mg_current_state = MG_Stopped, mg_current_reward = 0.0, mg_startStep = 0,
              mg_currentStep = 0, mg_last_power = 0, mg_max_allowed_power = mx\<rparr> of
        Inl e \<Rightarrow> Inl e
      | Inr (ob, d) \<Rightarrow> Inr (d\<lparr>mg_startStep := 0, mg_currentStep := 0, mg_last_power := 0\<rparr>))"

subsection \<open>The coordinator: EFlexMultiAgentCooperationClsV4\<close>

text \<open>
  The coordinator holds objects of the six device classes; the constructor of the
  datatype says which class an object has. Only the production classes define
  \<^verbatim>\<open>production_count\<close>, so \<^verbatim>\<open>hasattr(agent, 'production_count')\<close> is the test for
  \<open>Production\<close>.
\<close>

datatype agent =
  Production EFlexAgent
  | Storage EFlexEnergyStorageAgent
  | Generator EFLEXEnergyGeneratorAgent
  | MainGrid EFLEXEnergyMainGridAgent

fun agent_step :: "agent \<Rightarrow> int \<Rightarrow> error + (real list \<times> real \<times> bool \<times> agent)" where
  "agent_step (Production d) a =
     (case EFlexAgent_step d a of Inl e \<Rightarrow> Inl e
      | Inr (ob, r, eo, d') \<Rightarrow> Inr (ob, r, eo, Production d'))"
| "agent_step (Storage d) a =
     (case EFlexEnergyStorageAgent_step d a of Inl e \<Rightarrow> Inl e
      | Inr (ob, r, eo, d') \<Rightarrow> Inr (ob, r, eo, Storage d'))"
| "agent_step (Generator d) a =
     (case EFLEXEnergyGeneratorAgent_step d a of Inl e \<Rightarrow> Inl e
      | Inr (ob, r, eo, d') \<Rightarrow> Inr (ob, r, eo, Generator d'))"
| "agent_step (MainGrid d) a =
     (case EFLEXEnergyMainGridAgent_step d a of Inl e \<Rightarrow> Inl e
      | Inr (ob, r, eo, d') \<Rightarrow> Inr (ob, r, eo, MainGrid d'))"

fun agent_reset :: "agent \<Rightarrow> error + (real list \<times> agent)" where
  "agent_reset (Production d) =
     (case EFlexAgent_reset d of Inl e \<Rightarrow> Inl e | Inr (ob, d') \<Rightarrow> Inr (ob, Production d'))"
| "agent_reset (Storage d) =
     (case EFlexEnergyStorageAgent_reset d of Inl e \<Rightarrow> Inl e
      | Inr (ob, d') \<Rightarrow> Inr (ob, Storage d'))"
| "agent_reset (Generator d) =
     (case EFLEXEnergyGeneratorAgent_reset d of Inl e \<Rightarrow> Inl e
      | Inr (ob, d') \<Rightarrow> Inr (ob, Generator d'))"
| "agent_reset (MainGrid d) =
     (case EFLEXEnergyMainGridAgent_reset d of Inl e \<Rightarrow> Inl e
      | Inr (ob, d') \<Rightarrow> Inr (ob, MainGrid d'))"

fun agent_current_power :: "agent \<Rightarrow> real" where
  "agent_current_power (Production d) = EFlexAgent_current_power d"
| "agent_current_power (Storage d) = EFlexEnergyStorageAgent_current_power d"
| "agent_current_power (Generator d) = EFLEXEnergyGeneratorAgent_current_power d"
| "agent_current_power (MainGrid d) = EFLEXEnergyMainGridAgent_current_power d"

fun agent_get_obs :: "agent \<Rightarrow> error + real list" where
  "agent_get_obs (Production d) = EFlexAgent_get_obs d"
| "agent_get_obs (Storage d) = EFlexEnergyStorageAgent_get_obs d"
| "agent_get_obs (Generator d) = EFLEXEnergyGeneratorAgent_get_obs d"
| "agent_get_obs (MainGrid d) = EFLEXEnergyMainGridAgent_get_obs d"

text \<open>
  \<^verbatim>\<open>self.n\<close> is \<open>env_n\<close> and the coordinator's \<^verbatim>\<open>max_allowed_power\<close> is
  \<open>env_max_allowed_power\<close>. \<^verbatim>\<open>global_reward\<close> is \<open>None\<close> for the nan that
  \<^verbatim>\<open>np.mean\<close> gives on an empty list.
\<close>

record EFlexMultiAgentCooperationClsV4 =
  agents :: "agent list"
  env_n :: nat
  shared_reward :: bool
  env_max_allowed_power :: real
  energy_cost_budget :: real
  current_system_power :: real
  global_reward :: "real option"
  current_winner :: "nat list"
  tou_generator :: TOUGenerator
  load_profile :: LoadProfile

definition np_mean :: "real list \<Rightarrow> real option" where
  "np_mean xs = (if xs = [] then None else Some (sum_list xs / real (length xs)))"

text \<open>
  The local variables of \<^verbatim>\<open>step\<close> that the loop over the devices updates, with the
  devices already stepped (\<open>stepped\<close>) and \<^verbatim>\<open>self.current_winner\<close> (\<open>winner\<close>).
\<close>

record tick_locals =
  obs_n :: "real list list"
  reward_n :: "real list"
  done_n :: "bool list"
  current_power_n :: "real list"
  production :: int
  winner :: "nat list"
  stepped :: "agent list"

text \<open>
  The body of \<^verbatim>\<open>for i, agent in enumerate(self.agents)\<close>. \<^verbatim>\<open>action[i]\<close> raises
  IndexError when the action vector is too short.
\<close>

definition step_agent :: "int list \<Rightarrow> nat \<Rightarrow> agent \<Rightarrow> tick_locals \<Rightarrow> error + tick_locals" where
  "step_agent action i agent l =
     (if i < length action then
        (case agent_step agent (action ! i) of
           Inl e \<Rightarrow> Inl e
         | Inr (ob, state_reward, eo, agent') \<Rightarrow>
             (let l = l\<lparr>obs_n := obs_n l @ [ob], done_n := done_n l @ [eo],
                        current_power_n := current_power_n l @ [agent_current_power agent']\<rparr>
              in case (agent, agent') of
                   (Production d0, Production d) \<Rightarrow>
                     (let last_agent_state = EFLEXAgentState_value (current_state d0);
                          hit = (EFLEXAgentState_value (current_state d)
                                   = EFLEXAgentState_value Completed
                                 \<and> last_agent_state = EFLEXAgentState_value Execute);
                          production_reward = (if hit then 1.0 else 0.0);
                          l = (if hit then l\<lparr>production := production l + 1\<rparr> else l);
                          blended = 0.5 * state_reward + 0.5 * production_reward;
                          l = l\<lparr>reward_n := reward_n l @ [blended]\<rparr>;
                          d = d\<lparr>current_reward := blended\<rparr>;
                          l = (if production_count d \<ge> MAX_PRODUCTION_STEP
                               then l\<lparr>winner := winner l @ [i]\<rparr> else l)
                      in Inr (l\<lparr>stepped := stepped l @ [Production d]\<rparr>))
                 | _ \<Rightarrow>
                     Inr (l\<lparr>reward_n := reward_n l @ [state_reward],
                            stepped := stepped l @ [agent']\<rparr>)))
      else Inl IndexError)"

fun step_agents :: "int list \<Rightarrow> nat \<Rightarrow> agent list \<Rightarrow> tick_locals \<Rightarrow> error + tick_locals" where
  "step_agents action i [] l = Inr l"
| "step_agents action i (agent # rest) l =
     (case step_agent action i agent l of
        Inl e \<Rightarrow> Inl e
      | Inr l \<Rightarrow> step_agents action (Suc i) rest l)"

text \<open>
  The state of \<^verbatim>\<open>step\<close> just before the budget check (the comment
  \<^verbatim>\<open># Check if the total energy ...\<close>): the reward vector, the flag \<^verbatim>\<open>done\<close>, the
  price, the load limit and the loop's results.
\<close>

record before_budget =
  bb_reward_n :: "real list"
  bb_done :: bool
  bb_current_energy_price :: real
  bb_max_load_pofile :: real
  bb_locals :: tick_locals
  bb_tou_generator :: TOUGenerator
  bb_load_profile :: LoadProfile

definition step_before_budget ::
  "EFlexMultiAgentCooperationClsV4 \<Rightarrow> int list \<Rightarrow> error + before_budget" where
  "step_before_budget c action =
     (case TOUGenerator_step (tou_generator c) of
        Inl e \<Rightarrow> Inl e
      | Inr (current_energy_price, tg) \<Rightarrow>
     (case LoadProfile_step (load_profile c) of
        Inl e \<Rightarrow> Inl e
      | Inr (max_load_pofile, lp) \<Rightarrow>
     (case step_agents action 0 (agents c)
             \<lparr>obs_n = [], reward_n = [], done_n = [], current_power_n = [],
              production = 0, winner = current_winner c, stepped = []\<rparr> of
        Inl e \<Rightarrow> Inl e
      | Inr l \<Rightarrow>
          (let reward = sum_list (reward_n l);
               rs = (if shared_reward c then replicate (env_n c) reward else reward_n l);
               done = (0 < sum_list (map (\<lambda>b. if b then 1 else (0::nat)) (done_n l)))
           in Inr \<lparr>bb_reward_n = rs, bb_done = done,
                   bb_current_energy_price = current_energy_price,
                   bb_max_load_pofile = max_load_pofile, bb_locals = l,
                   bb_tou_generator = tg, bb_load_profile = lp\<rparr>))))"

record info =
  info_current_energy_price :: real
  info_max_load_pofile :: real
  info_current_system_power :: real
  info_energy_cost_budget :: real
  info_production :: int

text \<open>
  \<^verbatim>\<open>step\<close> returns \<^verbatim>\<open>(obs_n, reward_n, done, info_n)\<close>; the coordinator after the
  tick is the last component. The per-device trace strings of \<^verbatim>\<open>info_n\<close> are left out.
\<close>

definition step ::
  "EFlexMultiAgentCooperationClsV4 \<Rightarrow> int list
     \<Rightarrow> error + (real list list \<times> real list \<times> bool \<times> info \<times> EFlexMultiAgentCooperationClsV4)"
  where
  "step c action =
     (case step_before_budget c action of
        Inl e \<Rightarrow> Inl e
      | Inr b \<Rightarrow>
          (let l = bb_locals b;
               system_power = sum_list (current_power_n l);
               over = (system_power * bb_current_energy_price b > energy_cost_budget c);
               rs = (if over then map (\<lambda>r. r - 0.5) (bb_reward_n b) else bb_reward_n b);
               done = (if over then True else bb_done b)
           in Inr (obs_n l, rs, done,
                   \<lparr>info_current_energy_price = bb_current_energy_price b,
                    info_max_load_pofile = bb_max_load_pofile b,
                    info_current_system_power = system_power,
                    info_energy_cost_budget = energy_cost_budget c,
                    info_production = production l\<rparr>,
                   c\<lparr>agents := stepped l, current_winner := winner l,
                     current_system_power := system_power,
                     global_reward := np_mean rs,
                     tou_generator := bb_tou_generator b,
                     load_profile := bb_load_profile b\<rparr>)))"

fun reset_agents :: "agent list \<Rightarrow> error + (real list list \<times> agent list)" where
  "reset_agents [] = Inr ([], [])"
| "reset_agents (agent # rest) =
     (case agent_reset agent of
        Inl e \<Rightarrow> Inl e
      | Inr (ob, agent') \<Rightarrow>
          (case reset_agents rest of
             Inl e \<Rightarrow> Inl e
           | Inr (obs, rest') \<Rightarrow> Inr (ob # obs, agent' # rest')))"

definition reset ::
  "EFlexMultiAgentCooperationClsV4
     \<Rightarrow> error + (real list list \<times> EFlexMultiAgentCooperationClsV4)" where
  "reset c =
     (case reset_agents (agents c) of
        Inl e \<Rightarrow> Inl e
      | Inr (obs, as) \<Rightarrow>
          Inr (obs, c\<lparr>agents := as, current_winner := [], global_reward := Some 0.0,
                      current_system_power := 0.0,
                      tou_generator := TOUGenerator_reset (tou_generator c),
                      load_profile := LoadProfile_reset (load_profile c)\<rparr>))"

text \<open>
  \<^verbatim>\<open>configure\<close>, with the configuration file already read: one entry per device
  (its class and \<^verbatim>\<open>p_min\<close>, \<^verbatim>\<open>p_max\<close>, \<^verbatim>\<open>p_slope\<close>), in the order of the file.
\<close>

datatype agent_type =
  EFlexAgentPConstant | EFlexAgentPLinear | EFlexAgentPLogistic
  | EFlexEnergyStorageAgent_type | EFLEXEnergyGeneratorAgent_type
  | EFLEXEnergyMainGridAgent_type

fun make_agent :: "real \<Rightarrow> agent_type \<times> real \<times> real \<times> real \<Rightarrow> error + agent" where
  "make_agent mx (EFlexAgentPConstant, lo, hi, sl) =
     map_sum id Production (EFlexAgent_init PConstant lo hi sl mx)"
| "make_agent mx (EFlexAgentPLinear, lo, hi, sl) =
     map_sum id Production (EFlexAgent_init PLinear lo hi sl mx)"
| "make_agent mx (EFlexAgentPLogistic, lo, hi, sl) =
     map_sum id Production (EFlexAgent_init PLogistic lo hi sl mx)"
| "make_agent mx (EFlexEnergyStorageAgent_type, lo, hi, sl) =
     map_sum id Storage (EFlexEnergyStorageAgent_init lo hi sl mx)"
| "make_agent mx (EFLEXEnergyGeneratorAgent_type, lo, hi, sl) =
     map_sum id Generator (EFLEXEnergyGeneratorAgent_init lo hi sl mx)"
| "make_agent mx (EFLEXEnergyMainGridAgent_type, lo, hi, sl) =
     map_sum id MainGrid (EFLEXEnergyMainGridAgent_init lo hi sl mx)"

fun make_agents :: "real \<Rightarrow> (agent_type \<times> real \<times> real \<times> real) list \<Rightarrow> error + agent list" where
  "make_agents mx [] = Inr []"
| "make_agents mx (conf # confs) =
     (case make_agent mx conf of
        Inl e \<Rightarrow> Inl e
      | Inr a \<Rightarrow>
          (case make_agents mx confs of Inl e \<Rightarrow> Inl e | Inr as \<Rightarrow> Inr (a # as)))"

definition configure ::
  "bool \<Rightarrow> real \<Rightarrow> real \<Rightarrow> int list \<Rightarrow> real list \<Rightarrow> int list \<Rightarrow> real list \<Rightarrow> real
     \<Rightarrow> (agent_type \<times> real \<times> real \<times> real) list
     \<Rightarrow> error + EFlexMultiAgentCooperationClsV4" where
  "configure shared mx budget t_steps t_values l_steps l_values tol confs =
     (case TOUGenerator_init t_steps t_values of
        Inl e \<Rightarrow> Inl e
      | Inr tg \<Rightarrow>
     (case LoadProfile_init l_steps l_values tol of
        Inl e \<Rightarrow> Inl e
      | Inr lp \<Rightarrow>
     (case make_agents mx confs of
        Inl e \<Rightarrow> Inl e
      | Inr as \<Rightarrow>
          map_sum id snd
            (reset \<lparr>agents = as, env_n = length as, shared_reward = shared,
                    env_max_allowed_power = mx, energy_cost_budget = budget,
                    current_system_power = 0.0, global_reward = Some 0.0,
                    current_winner = [], tou_generator = tg, load_profile = lp\<rparr>))))"

subsection \<open>The specification's reading of the generators, and example inputs\<close>

text \<open>
  The specification selects "the value associated with the first breakpoint strictly
  greater than the tick counter"; \<open>spec_value_of_first_breakpoint_above\<close> is that reading,
  to be compared with what \<^verbatim>\<open>step\<close> computes.
\<close>

definition spec_value_of_first_breakpoint_above :: "int list \<Rightarrow> real list \<Rightarrow> int \<Rightarrow> real option"
  where
  "spec_value_of_first_breakpoint_above steps vals t =
     map_option snd (find (\<lambda>(limit, v). t < limit) (zip steps vals))"

definition spec_tou_value_ok :: "TOUGenerator \<Rightarrow> bool" where
  "spec_tou_value_ok g \<longleftrightarrow>
     spec_value_of_first_breakpoint_above (tou_steps g) (tou_values g) (tou_current_step g)
       = Some (current_tou_value g)"

definition tou_example :: TOUGenerator where
  "tou_example =
     \<lparr>tou_steps = [0, 10], tou_values = [1, 2], tou_current_step = 0, current_tou_value = 1\<rparr>"

definition lp_example :: LoadProfile where
  "lp_example =
     \<lparr>lp_steps = [0, 10], lp_values = [100, 200], tolerance_factor = 1 / 2,
      lp_current_step = 0, current_max_load = 150\<rparr>"

definition prod_example :: EFlexAgent where
  "prod_example =
     \<lparr>kind = PLinear, p_min = 10, p_max = 50, p_slope = 10, current_state = Stopped,
      current_reward = 0, startStep = 0, currentStep = 0, production_count = 0,
      max_allowed_power = 100\<rparr>"

text \<open>
  Consecutive calls of \<^verbatim>\<open>step\<close> on a storage device: the reward each call returns and
  \<^verbatim>\<open>charging_level\<close> after it, and the device at the end.
\<close>

fun EFlexEnergyStorageAgent_steps ::
  "EFlexEnergyStorageAgent \<Rightarrow> int list
     \<Rightarrow> error + ((real \<times> real) list \<times> EFlexEnergyStorageAgent)" where
  "EFlexEnergyStorageAgent_steps d [] = Inr ([], d)"
| "EFlexEnergyStorageAgent_steps d (a # as) =
     (case EFlexEnergyStorageAgent_step d a of
        Inl e \<Rightarrow> Inl e
      | Inr (ob, r, eo, d') \<Rightarrow>
          (case EFlexEnergyStorageAgent_steps d' as of
             Inl e \<Rightarrow> Inl e
           | Inr (tr, d'') \<Rightarrow> Inr ((r, charging_level d') # tr, d'')))"

definition es_example :: EFlexEnergyStorageAgent where
  "es_example =
     \<lparr>es_p_min = 0, es_p_max = 100, es_p_slope = 25, es_current_state = ES_Stopped,
      es_current_reward = 0, es_startStep = 0, es_currentStep = 0, charging_level = 0,
      es_max_allowed_power = 100\<rparr>"

text \<open>
  Consecutive calls of \<^verbatim>\<open>step\<close> on a grid device: after each call the state, the
  reward returned, the flag \<^verbatim>\<open>episode_over\<close> returned and \<^verbatim>\<open>current_power\<close>; and the
  device at the end.
\<close>

fun EFLEXEnergyMainGridAgent_steps ::
  "EFLEXEnergyMainGridAgent \<Rightarrow> int list
     \<Rightarrow> error + ((EFLEXEnergyMainGridAgentState \<times> real \<times> bool \<times> real) list
                 \<times> EFLEXEnergyMainGridAgent)" where
  "EFLEXEnergyMainGridAgent_steps d [] = Inr ([], d)"
| "EFLEXEnergyMainGridAgent_steps d (a # as) =
     (case EFLEXEnergyMainGridAgent_step d a of
        Inl e \<Rightarrow> Inl e
      | Inr (ob, r, eo, d') \<Rightarrow>
          (case EFLEXEnergyMainGridAgent_steps d' as of
             Inl e \<Rightarrow> Inl e
           | Inr (tr, d'') \<Rightarrow>
               Inr ((mg_current_state d', r, eo, EFLEXEnergyMainGridAgent_current_power d')
                      # tr,
                    d'')))"

definition mg_example :: EFLEXEnergyMainGridAgent where
  "mg_example =
     \<lparr>mg_p_min = 0, mg_p_max = 50, mg_p_slope = 0, mg_current_state = MG_Stopped,
      mg_current_reward = 0, mg_startStep = 0, mg_currentStep = 0, mg_last_power = 0,
      mg_max_allowed_power = 100\<rparr>"

text \<open>
  For a device of any class: the number of members of its state enumeration, the
  \<^verbatim>\<open>.value\<close> of its current state, and its \<^verbatim>\<open>max_allowed_power\<close>.
\<close>

fun agent_n_states :: "agent \<Rightarrow> nat" where
  "agent_n_states (Production d) = length EFLEXAgentState_members"
| "agent_n_states (Storage d) = length EFLEXEnergyStorageAgentState_members"
| "agent_n_states (Generator d) = length EFLEXEnergyGeneratorAgentState_members"
| "agent_n_states (MainGrid d) = length EFLEXEnergyMainGridAgentState_members"

fun agent_state_value :: "agent \<Rightarrow> nat" where
  "agent_state_value (Production d) = EFLEXAgentState_value (current_state d)"
| "agent_state_value (Storage d) = EFLEXEnergyStorageAgentState_value (es_current_state d)"
| "agent_state_value (Generator d) = EFLEXEnergyGeneratorAgentState_value (eg_current_state d)"
| "agent_state_value (MainGrid d) = EFLEXEnergyMainGridAgentState_value (mg_current_state d)"

fun agent_max_allowed_power :: "agent \<Rightarrow> real" where
  "agent_max_allowed_power (Production d) = max_allowed_power d"
| "agent_max_allowed_power (Storage d) = es_max_allowed_power d"
| "agent_max_allowed_power (Generator d) = eg_max_allowed_power d"
| "agent_max_allowed_power (MainGrid d) = mg_max_allowed_power d"

text \<open>
  Consecutive ticks of the coordinator, one action vector per tick: the reward vector
  and the flag \<^verbatim>\<open>done\<close> of each tick, and the coordinator at the end.
\<close>

fun step_many ::
  "EFlexMultiAgentCooperationClsV4 \<Rightarrow> int list list
     \<Rightarrow> error + ((real list \<times> bool) list \<times> EFlexMultiAgentCooperationClsV4)" where
  "step_many c [] = Inr ([], c)"
| "step_many c (action # actions) =
     (case step c action of
        Inl e \<Rightarrow> Inl e
      | Inr (obs, rs, done, info_n, c') \<Rightarrow>
          (case step_many c' actions of
             Inl e \<Rightarrow> Inl e
           | Inr (out, c'') \<Rightarrow> Inr ((rs, done) # out, c'')))"

text \<open>
  A device has reached the production target when it is a production device with
  \<^verbatim>\<open>production_count >= MAX_PRODUCTION_STEP\<close>; \<open>winner_indices i as\<close> lists the positions
  of such devices in \<open>as\<close>, counted from \<open>i\<close>, in ascending order.
\<close>

fun is_winner :: "agent \<Rightarrow> bool" where
  "is_winner (Production d) \<longleftrightarrow> production_count d \<ge> MAX_PRODUCTION_STEP"
| "is_winner (Storage d) \<longleftrightarrow> False"
| "is_winner (Generator d) \<longleftrightarrow> False"
| "is_winner (MainGrid d) \<longleftrightarrow> False"

fun winner_indices :: "nat \<Rightarrow> agent list \<Rightarrow> nat list" where
  "winner_indices i [] = []"
| "winner_indices i (a # as) = (if is_winner a then [i] else []) @ winner_indices (Suc i) as"

text \<open>
  Two constant-power production devices with \<^verbatim>\<open>p_max = 30\<close> under a shared reward, a
  budget of 50 and a constant price of 1, as \<^verbatim>\<open>configure\<close> leaves them.
\<close>

definition pc_example :: EFlexAgent where
  "pc_example =
     \<lparr>kind = PConstant, p_min = 0, p_max = 30, p_slope = 0, current_state = Stopped,
      current_reward = 0, startStep = 0, currentStep = 0, production_count = 0,
      max_allowed_power = 100\<rparr>"

definition env_example :: EFlexMultiAgentCooperationClsV4 where
  "env_example =
     \<lparr>agents = [Production pc_example, Production pc_example], env_n = 2,
      shared_reward = True, env_max_allowed_power = 100, energy_cost_budget = 50,
      current_system_power = 0, global_reward = Some 0, current_winner = [],
      tou_generator =
        \<lparr>tou_steps = [0], tou_values = [1], tou_current_step = 0, current_tou_value = 1\<rparr>,
      load_profile =
        \<lparr>lp_steps = [0], lp_values = [100], tolerance_factor = 0, lp_current_step = 0,
         current_max_load = 100\<rparr>\<rparr>"

text \<open>
  One constant-power production device under individual rewards, as \<^verbatim>\<open>configure\<close>
  leaves it, and the sixty ticks that complete twenty production cycles: Reset, then
  Start, SC, SC nineteen times, then Start and SC.
\<close>

definition env_single :: EFlexMultiAgentCooperationClsV4 where
  "env_single =
     \<lparr>agents = [Production pc_example], env_n = 1,
      shared_reward = False, env_max_allowed_power = 100, energy_cost_budget = 50,
      current_system_power = 0, global_reward = Some 0, current_winner = [],
      tou_generator =
        \<lparr>tou_steps = [0], tou_values = [1], tou_current_step = 0, current_tou_value = 1\<rparr>,
      load_profile =
        \<lparr>lp_steps = [0], lp_values = [100], tolerance_factor = 0, lp_current_step = 0,
         current_max_load = 100\<rparr>\<rparr>"

definition winner_ticks :: "int list list" where
  "winner_ticks = [3] # concat (replicate 19 [ [10], [0], [0] ]) @ [ [10], [0] ]"


text \<open>
  The coordinators that the code can produce: what \<^verbatim>\<open>configure\<close> returns, and what
  \<^verbatim>\<open>step\<close> and \<^verbatim>\<open>reset\<close> make of such a coordinator.
\<close>

inductive reachable :: "EFlexMultiAgentCooperationClsV4 \<Rightarrow> bool" where
  configured:
    "configure shared mx budget t_steps t_values l_steps l_values tol confs = Inr c
     \<Longrightarrow> reachable c"
| ticked:
    "reachable c \<Longrightarrow> step c action = Inr (obs, rs, fin, info_n, c') \<Longrightarrow> reachable c'"
| was_reset:
    "reachable c \<Longrightarrow> reset c = Inr (obs, c') \<Longrightarrow> reachable c'"

section \<open>Properties\<close>

subsection \<open>The time-series generators\<close>

lemma tou_scan_takeWhile:
  "i + length (takeWhile (\<lambda>l. l < t) steps) \<le> length vals \<Longrightarrow>
   tou_scan t vals i steps cur =
     Inr (let k = length (takeWhile (\<lambda>l. l < t) steps)
          in if k = 0 then cur else vals ! (i + k - 1))"
  by (induction steps arbitrary: i cur) (auto simp: Let_def)

lemma lp_scan_takeWhile:
  "i + length (takeWhile (\<lambda>l. l < t) steps) \<le> length vals \<Longrightarrow>
   lp_scan t vals tol i steps cur =
     Inr (let k = length (takeWhile (\<lambda>l. l < t) steps)
          in if k = 0 then cur else vals ! (i + k - 1) * (1 + tol))"
  by (induction steps arbitrary: i cur) (auto simp: Let_def)

lemma sorted_takeWhile_length:
  fixes steps :: "int list"
  assumes "sorted steps" "j < length steps" "steps ! j < t"
    "Suc j < length steps \<longrightarrow> t \<le> steps ! Suc j"
  shows "length (takeWhile (\<lambda>l. l < t) steps) = Suc j"
proof -
  have "takeWhile (\<lambda>l. l < t) steps = take (Suc j) steps"
  proof (rule takeWhile_eq_take_P_nth)
    fix i assume "i < Suc j" "i < length steps"
    then have "steps ! i \<le> steps ! j" using assms(1,2) by (simp add: sorted_nth_mono)
    then show "steps ! i < t" using assms(3) by simp
  next
    assume "Suc j < length steps"
    then show "\<not> steps ! Suc j < t" using assms(4) by simp
  qed
  then show ?thesis using assms(2) by simp
qed

lemma takeWhile_none:
  "(\<forall>l\<in>set steps. t \<le> l) \<Longrightarrow> takeWhile (\<lambda>l. l < (t::int)) steps = []"
  by (cases steps) auto


lemma takeWhile_below_mono:
  fixes steps :: "int list"
  assumes "t \<le> t'" "takeWhile (\<lambda>l. l < t') steps = []"
  shows "takeWhile (\<lambda>l. l < t) steps = []"
  using assms by (cases steps) (auto split: if_splits)

lemma TOUGenerator_step_takeWhile:
  assumes "length (tou_steps g) \<le> length (tou_values g)"
  shows "TOUGenerator_step g =
     Inr (let k = length (takeWhile (\<lambda>l. l < tou_current_step g + 1) (tou_steps g));
              v = (if k = 0 then current_tou_value g else tou_values g ! (k - 1))
          in (v, g\<lparr>tou_current_step := tou_current_step g + 1, current_tou_value := v\<rparr>))"
proof -
  have "length (takeWhile (\<lambda>l. l < tou_current_step g + 1) (tou_steps g)) \<le> length (tou_values g)"
    using assms length_takeWhile_le [of "\<lambda>l. l < tou_current_step g + 1" "tou_steps g"]
    by linarith
  then show ?thesis
    by (simp add: TOUGenerator_step_def tou_scan_takeWhile Let_def)
qed

lemma TOUGenerator_steps_takeWhile:
  assumes "length (tou_steps g) \<le> length (tou_values g)"
  shows "TOUGenerator_steps (Suc n) g =
     Inr (let t = tou_current_step g + 1 + int n;
              k = length (takeWhile (\<lambda>l. l < t) (tou_steps g));
              v = (if k = 0 then current_tou_value g else tou_values g ! (k - 1))
          in g\<lparr>tou_current_step := t, current_tou_value := v\<rparr>)"
  using assms
proof (induction n arbitrary: g)
  case 0
  then show ?case
    by (simp add: TOUGenerator_step_takeWhile Let_def)
next
  case (Suc n)
  let ?t1 = "tou_current_step g + 1"
  let ?k1 = "length (takeWhile (\<lambda>l. l < ?t1) (tou_steps g))"
  let ?v1 = "if ?k1 = 0 then current_tou_value g else tou_values g ! (?k1 - 1)"
  let ?g1 = "g\<lparr>tou_current_step := ?t1, current_tou_value := ?v1\<rparr>"
  let ?t = "tou_current_step g + 1 + int (Suc n)"
  have step1: "TOUGenerator_step g = Inr (?v1, ?g1)"
    using Suc.prems by (simp add: TOUGenerator_step_takeWhile Let_def)
  have len1: "length (tou_steps ?g1) \<le> length (tou_values ?g1)"
    using Suc.prems by simp
  have keep: "takeWhile (\<lambda>l. l < ?t) (tou_steps g) = [] \<Longrightarrow> ?k1 = 0"
    using takeWhile_below_mono [of ?t1 ?t "tou_steps g"] by simp
  have "TOUGenerator_steps (Suc (Suc n)) g = TOUGenerator_steps (Suc n) ?g1"
    using step1 by simp
  also have "\<dots> = Inr (let t = tou_current_step ?g1 + 1 + int n;
              k = length (takeWhile (\<lambda>l. l < t) (tou_steps ?g1));
              v = (if k = 0 then current_tou_value ?g1 else tou_values ?g1 ! (k - 1))
          in ?g1\<lparr>tou_current_step := t, current_tou_value := v\<rparr>)"
    by (rule Suc.IH [OF len1])
  also have "\<dots> = Inr (let t = ?t;
              k = length (takeWhile (\<lambda>l. l < t) (tou_steps g));
              v = (if k = 0 then current_tou_value g else tou_values g ! (k - 1))
          in g\<lparr>tou_current_step := t, current_tou_value := v\<rparr>)"
    using keep by (simp add: Let_def add.commute add.left_commute)
  finally show ?case .
qed


lemma LoadProfile_step_takeWhile:
  assumes "length (lp_steps g) \<le> length (lp_values g)"
  shows "LoadProfile_step g =
     Inr (let k = length (takeWhile (\<lambda>l. l < lp_current_step g + 1) (lp_steps g));
              v = (if k = 0 then current_max_load g
                   else lp_values g ! (k - 1) * (1 + tolerance_factor g))
          in (v, g\<lparr>lp_current_step := lp_current_step g + 1, current_max_load := v\<rparr>))"
proof -
  have "length (takeWhile (\<lambda>l. l < lp_current_step g + 1) (lp_steps g)) \<le> length (lp_values g)"
    using assms length_takeWhile_le [of "\<lambda>l. l < lp_current_step g + 1" "lp_steps g"]
    by linarith
  then show ?thesis
    by (simp add: LoadProfile_step_def lp_scan_takeWhile Let_def)
qed

lemma LoadProfile_steps_takeWhile:
  assumes "length (lp_steps g) \<le> length (lp_values g)"
  shows "LoadProfile_steps (Suc n) g =
     Inr (let t = lp_current_step g + 1 + int n;
              k = length (takeWhile (\<lambda>l. l < t) (lp_steps g));
              v = (if k = 0 then current_max_load g
                   else lp_values g ! (k - 1) * (1 + tolerance_factor g))
          in g\<lparr>lp_current_step := t, current_max_load := v\<rparr>)"
  using assms
proof (induction n arbitrary: g)
  case 0
  then show ?case
    by (simp add: LoadProfile_step_takeWhile Let_def)
next
  case (Suc n)
  let ?t1 = "lp_current_step g + 1"
  let ?k1 = "length (takeWhile (\<lambda>l. l < ?t1) (lp_steps g))"
  let ?v1 = "if ?k1 = 0 then current_max_load g
             else lp_values g ! (?k1 - 1) * (1 + tolerance_factor g)"
  let ?g1 = "g\<lparr>lp_current_step := ?t1, current_max_load := ?v1\<rparr>"
  let ?t = "lp_current_step g + 1 + int (Suc n)"
  have step1: "LoadProfile_step g = Inr (?v1, ?g1)"
    using Suc.prems by (simp add: LoadProfile_step_takeWhile Let_def)
  have len1: "length (lp_steps ?g1) \<le> length (lp_values ?g1)"
    using Suc.prems by simp
  have keep: "takeWhile (\<lambda>l. l < ?t) (lp_steps g) = [] \<Longrightarrow> ?k1 = 0"
    using takeWhile_below_mono [of ?t1 ?t "lp_steps g"] by simp
  have "LoadProfile_steps (Suc (Suc n)) g = LoadProfile_steps (Suc n) ?g1"
    using step1 by simp
  also have "\<dots> = Inr (let t = lp_current_step ?g1 + 1 + int n;
              k = length (takeWhile (\<lambda>l. l < t) (lp_steps ?g1));
              v = (if k = 0 then current_max_load ?g1
                   else lp_values ?g1 ! (k - 1) * (1 + tolerance_factor ?g1))
          in ?g1\<lparr>lp_current_step := t, current_max_load := v\<rparr>)"
    by (rule Suc.IH [OF len1])
  also have "\<dots> = Inr (let t = ?t;
              k = length (takeWhile (\<lambda>l. l < t) (lp_steps g));
              v = (if k = 0 then current_max_load g
                   else lp_values g ! (k - 1) * (1 + tolerance_factor g))
          in g\<lparr>lp_current_step := t, current_max_load := v\<rparr>)"
    using keep by (simp add: Let_def add.commute add.left_commute)
  finally show ?case .
qed

text \<open>
  Claim C4, as amended. For breakpoints in ascending order and a value for each of
  them, in \<^verbatim>\<open>TOUGenerator\<close> and in \<^verbatim>\<open>LoadProfile\<close> alike: every call of \<^verbatim>\<open>step()\<close>
  returns and adds exactly one to the tick counter, and after any number of calls the
  current value is the one of the last breakpoint strictly below the tick counter
  (scaled by \<open>1 + tolerance_factor\<close> in the load profile). A breakpoint equal to the
  tick counter does not trigger its value yet, past the final breakpoint the last value
  holds, and while no breakpoint is below the tick counter the value is the initial one.
\<close>

theorem C4_value_of_last_breakpoint_below_tick:
  assumes "sorted (tou_steps g)" and "length (tou_steps g) \<le> length (tou_values g)"
    and "sorted (lp_steps p)" and "length (lp_steps p) \<le> length (lp_values p)"
  shows "\<exists>g' p'.
     TOUGenerator_steps (Suc n) g = Inr g' \<and> LoadProfile_steps (Suc n) p = Inr p'
     \<and> tou_current_step g' = tou_current_step g + int (Suc n)
     \<and> lp_current_step p' = lp_current_step p + int (Suc n)
     \<and> (\<forall>i<length (tou_steps g).
           tou_steps g ! i < tou_current_step g'
           \<and> (Suc i < length (tou_steps g) \<longrightarrow> tou_current_step g' \<le> tou_steps g ! Suc i)
           \<longrightarrow> current_tou_value g' = tou_values g ! i)
     \<and> ((\<forall>l\<in>set (tou_steps g). tou_current_step g' \<le> l)
           \<longrightarrow> current_tou_value g' = current_tou_value g)
     \<and> (\<forall>i<length (lp_steps p).
           lp_steps p ! i < lp_current_step p'
           \<and> (Suc i < length (lp_steps p) \<longrightarrow> lp_current_step p' \<le> lp_steps p ! Suc i)
           \<longrightarrow> current_max_load p' = lp_values p ! i * (1 + tolerance_factor p))
     \<and> ((\<forall>l\<in>set (lp_steps p). lp_current_step p' \<le> l)
           \<longrightarrow> current_max_load p' = current_max_load p)"
proof -
  let ?t = "tou_current_step g + 1 + int n"
  let ?u = "lp_current_step p + 1 + int n"
  let ?k = "length (takeWhile (\<lambda>l. l < ?t) (tou_steps g))"
  let ?m = "length (takeWhile (\<lambda>l. l < ?u) (lp_steps p))"
  let ?g' = "g\<lparr>tou_current_step := ?t,
      current_tou_value := (if ?k = 0 then current_tou_value g else tou_values g ! (?k - 1))\<rparr>"
  let ?p' = "p\<lparr>lp_current_step := ?u,
      current_max_load := (if ?m = 0 then current_max_load p
                           else lp_values p ! (?m - 1) * (1 + tolerance_factor p))\<rparr>"
  have G: "TOUGenerator_steps (Suc n) g = Inr ?g'"
    using TOUGenerator_steps_takeWhile [OF assms(2), of n] by (simp add: Let_def)
  have P: "LoadProfile_steps (Suc n) p = Inr ?p'"
    using LoadProfile_steps_takeWhile [OF assms(4), of n] by (simp add: Let_def)
  have g1: "current_tou_value ?g' = tou_values g ! i"
    if "i < length (tou_steps g)" "tou_steps g ! i < ?t"
       "Suc i < length (tou_steps g) \<longrightarrow> ?t \<le> tou_steps g ! Suc i" for i
    using sorted_takeWhile_length [OF assms(1) that] by simp
  have g2: "current_tou_value ?g' = current_tou_value g"
    if "\<forall>l\<in>set (tou_steps g). ?t \<le> l"
    using takeWhile_none [OF that] by simp
  have p1: "current_max_load ?p' = lp_values p ! i * (1 + tolerance_factor p)"
    if "i < length (lp_steps p)" "lp_steps p ! i < ?u"
       "Suc i < length (lp_steps p) \<longrightarrow> ?u \<le> lp_steps p ! Suc i" for i
    using sorted_takeWhile_length [OF assms(3) that] by simp
  have p2: "current_max_load ?p' = current_max_load p"
    if "\<forall>l\<in>set (lp_steps p). ?u \<le> l"
    using takeWhile_none [OF that] by simp
  have tg: "tou_current_step ?g' = ?t" and tp: "lp_current_step ?p' = ?u"
    by simp_all
  show ?thesis
    apply (rule exI [of _ ?g'], rule exI [of _ ?p'])
    apply (intro conjI)
           apply (rule G)
          apply (rule P)
         apply simp
        apply simp
    using g1 apply (simp only: tg) apply blast
    using g2 apply (simp only: tg) apply blast
    using p1 apply (simp only: tp) apply blast
    using p2 apply (simp only: tp) apply blast
    done
qed


theorem C4_value_of_last_breakpoint_below_tick_witness:
  "current_tou_value (projr (TOUGenerator_steps (Suc 10) tou_example)) = 2
   \<and> tou_current_step (projr (TOUGenerator_steps (Suc 10) tou_example)) = 11
   \<and> current_max_load (projr (LoadProfile_steps (Suc 10) lp_example)) = 300
   \<and> current_tou_value (projr (TOUGenerator_steps (Suc 9) tou_example)) = 1"
proof -
  have h1: "sorted (tou_steps tou_example)"
    and h2: "length (tou_steps tou_example) \<le> length (tou_values tou_example)"
    and h3: "sorted (lp_steps lp_example)"
    and h4: "length (lp_steps lp_example) \<le> length (lp_values lp_example)"
    by (simp_all add: tou_example_def lp_example_def)
  from C4_value_of_last_breakpoint_below_tick [OF h1 h2 h3 h4, of 10]
  obtain g' p' where a: "TOUGenerator_steps (Suc 10) tou_example = Inr g'"
    and b: "LoadProfile_steps (Suc 10) lp_example = Inr p'"
    and c: "tou_current_step g' = tou_current_step tou_example + int (Suc 10)"
    and d: "\<forall>i<length (tou_steps tou_example).
           tou_steps tou_example ! i < tou_current_step g'
           \<and> (Suc i < length (tou_steps tou_example)
                \<longrightarrow> tou_current_step g' \<le> tou_steps tou_example ! Suc i)
           \<longrightarrow> current_tou_value g' = tou_values tou_example ! i"
    and e: "lp_current_step p' = lp_current_step lp_example + int (Suc 10)"
    and f: "\<forall>i<length (lp_steps lp_example).
           lp_steps lp_example ! i < lp_current_step p'
           \<and> (Suc i < length (lp_steps lp_example)
                \<longrightarrow> lp_current_step p' \<le> lp_steps lp_example ! Suc i)
           \<longrightarrow> current_max_load p' = lp_values lp_example ! i * (1 + tolerance_factor lp_example)"
    by blast
  from C4_value_of_last_breakpoint_below_tick [OF h1 h2 h3 h4, of 9]
  obtain g'' where a': "TOUGenerator_steps (Suc 9) tou_example = Inr g''"
    and c': "tou_current_step g'' = tou_current_step tou_example + int (Suc 9)"
    and d': "\<forall>i<length (tou_steps tou_example).
           tou_steps tou_example ! i < tou_current_step g''
           \<and> (Suc i < length (tou_steps tou_example)
                \<longrightarrow> tou_current_step g'' \<le> tou_steps tou_example ! Suc i)
           \<longrightarrow> current_tou_value g'' = tou_values tou_example ! i"
    by blast
  have "current_tou_value g' = 2"
    using d [rule_format, of 1] c by (simp add: tou_example_def)
  moreover have "tou_current_step g' = 11"
    using c by (simp add: tou_example_def)
  moreover have "current_max_load p' = 300"
    using f [rule_format, of 1] e by (simp add: lp_example_def)
  moreover have "current_tou_value g'' = 1"
    using d' [rule_format, of 0] c' by (simp add: tou_example_def)
  ultimately show ?thesis
    using a b a' by simp
qed

text \<open>
  Claim C4 as stated fails: with breakpoints 0 and 10 and values 1 and 2, after the first
  call the tick counter is 1 and the first breakpoint strictly greater than it is 10, whose
  value is 2, but the current value is 1, the value of breakpoint 0.
\<close>

theorem C4_first_breakpoint_above_counterexample:
  "TOUGenerator_steps (Suc 0) tou_example = Inr (tou_example\<lparr>tou_current_step := 1\<rparr>)
   \<and> \<not> spec_tou_value_ok (tou_example\<lparr>tou_current_step := 1\<rparr>)
   \<and> current_tou_value (tou_example\<lparr>tou_current_step := 1\<rparr>) = 1
   \<and> spec_value_of_first_breakpoint_above [0, 10] [1, 2] 1 = Some 2"
  by (simp add: tou_example_def TOUGenerator_step_def spec_tou_value_ok_def
      spec_value_of_first_breakpoint_above_def)

subsection \<open>Production devices\<close>

lemma prod_example_init: "EFlexAgent_init PLinear 10 50 10 100 = Inr prod_example"
  by (simp add: EFlexAgent_init_def EFlexAgent_reset_def EFlexAgent_get_obs_def py_div_def
      EFlexAgent_current_power_def prod_example_def)


lemma EFlexAgent_get_obs_total:
  "max_allowed_power d \<noteq> 0 \<Longrightarrow> \<exists>ob. EFlexAgent_get_obs d = Inr ob"
  by (simp add: EFlexAgent_get_obs_def py_div_def Let_def)

lemma take_action_max_allowed_power [simp]:
  "max_allowed_power (EFlexAgent_take_action d a) = max_allowed_power d"
  by (cases "current_state d") (simp_all add: EFlexAgent_take_action_def goto_def mark_start_def Let_def)

lemma EFlexAgent_step_total:
  assumes "max_allowed_power d \<noteq> 0" and "EFLEXAgentTransition_of a = Inr act"
  shows "\<exists>ob. EFlexAgent_step d a =
     Inr (ob, current_reward (EFlexAgent_take_action d act),
          EFlexAgent_get_done (EFlexAgent_take_action d act),
          (EFlexAgent_take_action d act)
            \<lparr>currentStep := currentStep (EFlexAgent_take_action d act) + 1\<rparr>)"
proof -
  obtain ob where "EFlexAgent_get_obs (EFlexAgent_take_action d act) = Inr ob"
    using EFlexAgent_get_obs_total [of "EFlexAgent_take_action d act"] assms(1) by auto
  then show ?thesis
    using assms(2) by (simp add: EFlexAgent_step_def EFlexAgent_get_reward_def Let_def)
qed

lemma take_action_Abort:
  assumes "current_state d \<noteq> Aborted" and "current_state d \<noteq> LoadChange"
  shows "current_state (EFlexAgent_take_action d T_Abort) = Aborted"
    and "current_reward (EFlexAgent_take_action d T_Abort) = - 0.1"
  using assms
  by (cases "current_state d"; simp add: EFlexAgent_take_action_def goto_def mark_start_def Let_def)+

lemma take_action_in_Aborted:
  assumes "current_state d = Aborted"
  shows "current_state (EFlexAgent_take_action d T_Clear) = Stopped"
    and "current_reward (EFlexAgent_take_action d T_Clear) = 1"
    and "act \<noteq> T_Clear \<Longrightarrow> current_state (EFlexAgent_take_action d act) = Aborted"
    and "act \<noteq> T_Clear \<Longrightarrow> current_reward (EFlexAgent_take_action d act) = 0"
  using assms by (simp_all add: EFlexAgent_take_action_def goto_def mark_start_def Let_def)

lemma take_action_in_LoadChange:
  "current_state d = LoadChange \<Longrightarrow> EFlexAgent_take_action d act = d"
  by (simp add: EFlexAgent_take_action_def)

lemma take_action_not_LoadChange:
  assumes "current_state d \<noteq> LoadChange"
  shows "current_state (EFlexAgent_take_action d act) \<noteq> LoadChange"
  using assms
  by (cases "current_state d")
     (simp_all add: EFlexAgent_take_action_def goto_def mark_start_def Let_def)

lemma EFlexAgent_step_Inr:
  assumes "EFlexAgent_step d a = Inr (ob, r, eo, d')"
  shows "\<exists>act. EFLEXAgentTransition_of a = Inr act
           \<and> current_state d' = current_state (EFlexAgent_take_action d act)"
  using assms
  by (auto simp: EFlexAgent_step_def Let_def split: sum.splits)

lemma EFLEXAgentTransition_of_range:
  "0 \<le> a \<Longrightarrow> a \<le> 13 \<Longrightarrow> \<exists>act. EFLEXAgentTransition_of a = Inr act"
  unfolding EFLEXAgentTransition_of_def by (simp, arith)

lemma EFLEXAgentTransition_of_Clear:
  "EFLEXAgentTransition_of a = Inr T_Clear \<longleftrightarrow> a = 2"
  by (simp add: EFLEXAgentTransition_of_def)


lemma EFLEXAgentTransition_of_Abort: "EFLEXAgentTransition_of 1 = Inr T_Abort"
  by (simp add: EFLEXAgentTransition_of_def)

text \<open>
  Claim C3, as amended. For every production device (whatever its power curve) in any of
  the nine states other than Aborted and LoadChange, the action Abort (index 1) moves
  the device to Aborted and \<^verbatim>\<open>step\<close> returns the reward -0.1; from Aborted, Clear
  (index 2) moves it to Stopped with reward 1.0 and every other action of the alphabet
  leaves it Aborted. \<^verbatim>\<open>_take_action\<close> has no branch for LoadChange: there every action
  of the alphabet, Abort included, leaves the state LoadChange and the stored reward as
  it was, and \<^verbatim>\<open>step\<close> returns that stored reward. No step from another state enters
  LoadChange, and \<^verbatim>\<open>reset\<close> gives Stopped.
\<close>

theorem C3_abort_and_clear_of_handled_states:
  assumes "max_allowed_power d \<noteq> 0"
  shows "(current_state d \<noteq> Aborted \<and> current_state d \<noteq> LoadChange \<longrightarrow>
            (\<exists>ob d'. EFlexAgent_step d 1 = Inr (ob, - 0.1, True, d')
                      \<and> current_state d' = Aborted))
       \<and> (current_state d = Aborted \<longrightarrow>
            (\<exists>ob eo d'. EFlexAgent_step d 2 = Inr (ob, 1.0, eo, d')
                         \<and> current_state d' = Stopped)
            \<and> (\<forall>a. 0 \<le> a \<and> a \<le> 13 \<and> a \<noteq> 2 \<longrightarrow>
                  (\<exists>ob r d'. EFlexAgent_step d a = Inr (ob, r, True, d')
                              \<and> current_state d' = Aborted)))
       \<and> (current_state d = LoadChange \<longrightarrow>
            (\<forall>a. 0 \<le> a \<and> a \<le> 13 \<longrightarrow>
               (\<exists>ob eo d'. EFlexAgent_step d a = Inr (ob, current_reward d, eo, d')
                            \<and> current_state d' = LoadChange
                            \<and> current_reward d' = current_reward d)))
       \<and> (current_state d \<noteq> LoadChange \<longrightarrow>
            (\<forall>a ob r eo d'. EFlexAgent_step d a = Inr (ob, r, eo, d') \<longrightarrow>
               current_state d' \<noteq> LoadChange))
       \<and> (\<forall>ob d'. EFlexAgent_reset d = Inr (ob, d') \<longrightarrow> current_state d' = Stopped)"
proof (intro conjI impI allI)
  assume st: "current_state d \<noteq> Aborted \<and> current_state d \<noteq> LoadChange"
  from EFlexAgent_step_total [OF assms EFLEXAgentTransition_of_Abort]
  obtain ob where "EFlexAgent_step d 1 =
     Inr (ob, current_reward (EFlexAgent_take_action d T_Abort),
          EFlexAgent_get_done (EFlexAgent_take_action d T_Abort),
          (EFlexAgent_take_action d T_Abort)
            \<lparr>currentStep := currentStep (EFlexAgent_take_action d T_Abort) + 1\<rparr>)"
    by blast
  then show "\<exists>ob d'. EFlexAgent_step d 1 = Inr (ob, - 0.1, True, d')
                      \<and> current_state d' = Aborted"
    using take_action_Abort [of d] st by (simp add: EFlexAgent_get_done_def)
next
  assume st: "current_state d = Aborted"
  have "EFLEXAgentTransition_of 2 = Inr T_Clear"
    by (simp add: EFLEXAgentTransition_of_def)
  from EFlexAgent_step_total [OF assms this]
  obtain ob where "EFlexAgent_step d 2 =
     Inr (ob, current_reward (EFlexAgent_take_action d T_Clear),
          EFlexAgent_get_done (EFlexAgent_take_action d T_Clear),
          (EFlexAgent_take_action d T_Clear)
            \<lparr>currentStep := currentStep (EFlexAgent_take_action d T_Clear) + 1\<rparr>)"
    by blast
  then show "\<exists>ob eo d'. EFlexAgent_step d 2 = Inr (ob, 1.0, eo, d')
                         \<and> current_state d' = Stopped"
    using take_action_in_Aborted(1,2) [OF st] by simp
next
  fix a :: int
  assume st: "current_state d = Aborted" and a: "0 \<le> a \<and> a \<le> 13 \<and> a \<noteq> 2"
  obtain act where act: "EFLEXAgentTransition_of a = Inr act"
    using EFLEXAgentTransition_of_range [of a] a by blast
  then have ne: "act \<noteq> T_Clear"
    using EFLEXAgentTransition_of_Clear [of a] a by auto
  from EFlexAgent_step_total [OF assms act]
  obtain ob where "EFlexAgent_step d a =
     Inr (ob, current_reward (EFlexAgent_take_action d act),
          EFlexAgent_get_done (EFlexAgent_take_action d act),
          (EFlexAgent_take_action d act)
            \<lparr>currentStep := currentStep (EFlexAgent_take_action d act) + 1\<rparr>)"
    by blast
  then show "\<exists>ob r d'. EFlexAgent_step d a = Inr (ob, r, True, d')
                              \<and> current_state d' = Aborted"
    using take_action_in_Aborted(3) [OF st ne] by (simp add: EFlexAgent_get_done_def)
next
  fix a :: int
  assume st: "current_state d = LoadChange" and a: "0 \<le> a \<and> a \<le> 13"
  obtain act where act: "EFLEXAgentTransition_of a = Inr act"
    using EFLEXAgentTransition_of_range [of a] a by blast
  from EFlexAgent_step_total [OF assms act]
  obtain ob where "EFlexAgent_step d a =
     Inr (ob, current_reward (EFlexAgent_take_action d act),
          EFlexAgent_get_done (EFlexAgent_take_action d act),
          (EFlexAgent_take_action d act)
            \<lparr>currentStep := currentStep (EFlexAgent_take_action d act) + 1\<rparr>)"
    by blast
  then show "\<exists>ob eo d'. EFlexAgent_step d a = Inr (ob, current_reward d, eo, d')
                            \<and> current_state d' = LoadChange
                            \<and> current_reward d' = current_reward d"
    using take_action_in_LoadChange [OF st, of act] st by simp
next
  fix a ob r eo d'
  assume st: "current_state d \<noteq> LoadChange"
    and s: "EFlexAgent_step d a = Inr (ob, r, eo, d')"
  from EFlexAgent_step_Inr [OF s] obtain act where
    "current_state d' = current_state (EFlexAgent_take_action d act)"
    by blast
  then show "current_state d' \<noteq> LoadChange"
    using take_action_not_LoadChange [OF st, of act] by simp
next
  fix ob d'
  assume "EFlexAgent_reset d = Inr (ob, d')"
  then show "current_state d' = Stopped"
    by (auto simp: EFlexAgent_reset_def Let_def split: sum.splits)
qed

lemmas prod_eval =
  EFlexAgent_step_def EFlexAgent_take_action_def EFlexAgent_get_obs_def
  EFlexAgent_get_done_def EFlexAgent_get_reward_def EFlexAgent_current_power_def
  EFlexAgent_obs_len_def EFLEXAgentState_members_def EFLEXAgentTransition_of_def
  MAX_PRODUCTION_STEP_def py_div_def goto_def mark_start_def Let_def

theorem C3_abort_and_clear_of_handled_states_witness:
  "fst (snd (projr (EFlexAgent_step prod_example 1))) = - 0.1
   \<and> current_state (snd (snd (snd (projr (EFlexAgent_step prod_example 1))))) = Aborted
   \<and> fst (snd (projr (EFlexAgent_step (prod_example\<lparr>current_state := Aborted\<rparr>) 2))) = 1
   \<and> current_state (snd (snd (snd (projr
        (EFlexAgent_step (prod_example\<lparr>current_state := Aborted\<rparr>) 2))))) = Stopped
   \<and> current_state (snd (snd (snd (projr
        (EFlexAgent_step (prod_example\<lparr>current_state := Aborted\<rparr>) 3))))) = Aborted
   \<and> fst (snd (projr (EFlexAgent_step
        (prod_example\<lparr>current_state := LoadChange, current_reward := 0.3\<rparr>) 4))) = 0.3
   \<and> current_state (snd (snd (snd (projr (EFlexAgent_step
        (prod_example\<lparr>current_state := LoadChange, current_reward := 0.3\<rparr>) 4))))) = LoadChange
   \<and> current_state (snd (snd (snd (projr (EFlexAgent_step prod_example 5))))) \<noteq> LoadChange
   \<and> current_state (snd (projr (EFlexAgent_reset
        (prod_example\<lparr>current_state := Execute\<rparr>)))) = Stopped"
proof -
  let ?l = "prod_example\<lparr>current_state := LoadChange, current_reward := 0.3\<rparr>"
  let ?e = "prod_example\<lparr>current_state := Execute\<rparr>"
  have ml: "max_allowed_power ?l \<noteq> 0" and me: "max_allowed_power ?e \<noteq> 0"
    by (simp_all add: prod_example_def)
  have sl: "current_state ?l = LoadChange" and rl: "current_reward ?l = 0.3"
    and al: "(0::int) \<le> 4 \<and> (4::int) \<le> 13"
    by simp_all
  note L = C3_abort_and_clear_of_handled_states [OF ml]
  from L sl al obtain obl eol dl where
    l1: "EFlexAgent_step ?l 4 = Inr (obl, current_reward ?l, eol, dl)"
    and l2: "current_state dl = LoadChange"
    by blast
  have "\<exists>x. EFlexAgent_step prod_example 5 = Inr x"
    by (simp add: prod_example_def EFlexAgent_step_def EFLEXAgentTransition_of_def
        EFlexAgent_get_obs_def py_div_def Let_def)
  then obtain ob5 r5 eo5 d5 where s5: "EFlexAgent_step prod_example 5 = Inr (ob5, r5, eo5, d5)"
    by (metis prod_cases4)
  have "\<exists>x. EFlexAgent_reset ?e = Inr x"
    by (simp add: prod_example_def EFlexAgent_reset_def EFlexAgent_get_obs_def py_div_def
        Let_def)
  then obtain obr dr where sr: "EFlexAgent_reset ?e = Inr (obr, dr)"
    by (metis surj_pair)
  note E = C3_abort_and_clear_of_handled_states [OF me]
  have lc: "current_state dl = LoadChange \<and> fst (snd (projr (EFlexAgent_step ?l 4))) = 0.3"
    using l1 l2 rl by simp
  have dr: "current_state dr = Stopped"
    using E sr by blast
  have m: "max_allowed_power prod_example \<noteq> 0"
    and m': "max_allowed_power (prod_example\<lparr>current_state := Aborted\<rparr>) \<noteq> 0"
    by (simp_all add: prod_example_def)
  have s: "current_state prod_example \<noteq> Aborted \<and> current_state prod_example \<noteq> LoadChange"
    by (simp add: prod_example_def)
  have s': "current_state (prod_example\<lparr>current_state := Aborted\<rparr>) = Aborted"
    by simp
  have r: "(0::int) \<le> 3 \<and> (3::int) \<le> 13 \<and> (3::int) \<noteq> 2"
    by simp
  note A = C3_abort_and_clear_of_handled_states [OF m]
  note B = C3_abort_and_clear_of_handled_states [OF m']
  from A s obtain ob d' where "EFlexAgent_step prod_example 1 = Inr (ob, - 0.1, True, d')"
    "current_state d' = Aborted"
    by blast
  moreover from B s' obtain ob2 eo2 d2 where
    "EFlexAgent_step (prod_example\<lparr>current_state := Aborted\<rparr>) 2 = Inr (ob2, 1.0, eo2, d2)"
    "current_state d2 = Stopped"
    by blast
  moreover from B s' r obtain ob3 r3 d3 where
    "EFlexAgent_step (prod_example\<lparr>current_state := Aborted\<rparr>) 3 = Inr (ob3, r3, True, d3)"
    "current_state d3 = Aborted"
    by blast
  moreover have "current_state d5 \<noteq> LoadChange"
    using A s s5 by blast
  ultimately show ?thesis
    using lc l1 s5 sr dr by simp
qed

text \<open>
  Claim C3 as stated fails in LoadChange, a state other than Aborted of the eleven:
  Abort leaves the device in LoadChange, and the reward returned is the stored one.
\<close>

theorem C3_abort_in_LoadChange_counterexample:
  "current_state (prod_example\<lparr>current_state := LoadChange\<rparr>) \<noteq> Aborted
   \<and> EFlexAgent_take_action (prod_example\<lparr>current_state := LoadChange\<rparr>) T_Abort
       = prod_example\<lparr>current_state := LoadChange\<rparr>
   \<and> EFlexAgent_step (prod_example\<lparr>current_state := LoadChange\<rparr>) 1
       = Inr ([0, 0, 0, 1, 0, 0, 0, 0, 0, 0, 0, 0, 1 / 10], 0, False,
              prod_example\<lparr>current_state := LoadChange, currentStep := 1\<rparr>)"
  by (simp add: prod_example_def prod_eval)

subsection \<open>The storage device\<close>

lemmas es_eval =
  EFlexEnergyStorageAgent_step_def EFlexEnergyStorageAgent_take_action_def
  EFlexEnergyStorageAgent_get_obs_def EFlexEnergyStorageAgent_get_done_def
  EFlexEnergyStorageAgent_current_power_def EFlexEnergyStorageAgent_obs_len_def
  EFLEXEnergyStorageAgentState_members_def EFLEXEnergyStorageAgentTransition_of_def
  EFlexEnergyStorageAgent_reset_def es_val_def es_goto_def py_div_def Let_def

lemma es_example_init: "EFlexEnergyStorageAgent_init 0 100 25 100 = Inr es_example"
  by (simp add: EFlexEnergyStorageAgent_init_def es_example_def es_eval)

lemma es_take_action_level:
  assumes "EFlexEnergyStorageAgent_take_action d act = Inr d'"
  shows "charging_level d' =
     (if es_current_state d = ES_Charging
      then min (charging_level d + es_p_slope d) (es_p_max d)
      else if es_current_state d = ES_Discharging
      then max (charging_level d - es_p_slope d) (es_p_min d)
      else charging_level d)"
    and "es_p_min d' = es_p_min d" and "es_p_max d' = es_p_max d"
    and "es_p_slope d' = es_p_slope d" and "es_max_allowed_power d' = es_max_allowed_power d"
  using assms
  by (cases "es_current_state d";
      auto simp: EFlexEnergyStorageAgent_take_action_def es_goto_def es_val_def py_div_def
        Let_def split: if_splits sum.splits)+

lemma es_take_action_total:
  assumes "es_p_max d \<noteq> 0"
  shows "\<exists>d'. EFlexEnergyStorageAgent_take_action d act = Inr d'"
  using assms
  by (cases "es_current_state d";
      simp add: EFlexEnergyStorageAgent_take_action_def es_goto_def es_val_def py_div_def
        Let_def)

lemma es_get_obs_total:
  "es_max_allowed_power d \<noteq> 0 \<Longrightarrow> \<exists>ob. EFlexEnergyStorageAgent_get_obs d = Inr ob"
  by (simp add: EFlexEnergyStorageAgent_get_obs_def py_div_def Let_def)

lemma EFLEXEnergyStorageAgentTransition_of_range:
  assumes "0 \<le> a" and "a \<le> 5"
  shows "\<exists>act. EFLEXEnergyStorageAgentTransition_of a = Inr act"
proof -
  have "a = 0 \<or> a = 1 \<or> a = 2 \<or> a = 3 \<or> a = 4 \<or> a = 5"
    using assms by arith
  then show ?thesis
    by (auto simp: EFLEXEnergyStorageAgentTransition_of_def)
qed

lemma es_step_Inr:
  assumes "EFlexEnergyStorageAgent_step d a = Inr (ob, r, eo, d')"
  shows "\<exists>act d1. EFLEXEnergyStorageAgentTransition_of a = Inr act
           \<and> EFlexEnergyStorageAgent_take_action d act = Inr d1
           \<and> d' = d1\<lparr>es_currentStep := es_currentStep d1 + 1\<rparr>
           \<and> r = es_current_reward d1"
  using assms
  by (auto simp: EFlexEnergyStorageAgent_step_def Let_def split: sum.splits)

text \<open>
  Claim C10. Whenever \<^verbatim>\<open>step\<close> of a storage device returns, \<^verbatim>\<open>charging_level\<close> is the
  old level plus \<^verbatim>\<open>p_slope\<close>, at most \<^verbatim>\<open>p_max\<close>, if the state before the step was
  Charging, the old level minus \<^verbatim>\<open>p_slope\<close>, at least \<^verbatim>\<open>p_min\<close>, if it was
  Discharging, whatever the action, and the old level otherwise. The step returns for
  every action of the alphabet when \<^verbatim>\<open>p_max\<close> and \<^verbatim>\<open>max_allowed_power\<close> are not zero.
\<close>

theorem C10_charging_level_follows_the_state_before_the_step:
  "(\<forall>ob r eo d'. EFlexEnergyStorageAgent_step d a = Inr (ob, r, eo, d') \<longrightarrow>
      charging_level d' =
        (if es_current_state d = ES_Charging
         then min (charging_level d + es_p_slope d) (es_p_max d)
         else if es_current_state d = ES_Discharging
         then max (charging_level d - es_p_slope d) (es_p_min d)
         else charging_level d))
   \<and> (0 \<le> a \<and> a \<le> 5 \<and> es_p_max d \<noteq> 0 \<and> es_max_allowed_power d \<noteq> 0 \<longrightarrow>
        (\<exists>ob r eo d'. EFlexEnergyStorageAgent_step d a = Inr (ob, r, eo, d')))"
proof (intro conjI allI impI)
  fix ob r eo d'
  assume "EFlexEnergyStorageAgent_step d a = Inr (ob, r, eo, d')"
  from es_step_Inr [OF this] obtain act d1 where
    t: "EFlexEnergyStorageAgent_take_action d act = Inr d1"
    and d': "d' = d1\<lparr>es_currentStep := es_currentStep d1 + 1\<rparr>"
    by blast
  show "charging_level d' =
        (if es_current_state d = ES_Charging
         then min (charging_level d + es_p_slope d) (es_p_max d)
         else if es_current_state d = ES_Discharging
         then max (charging_level d - es_p_slope d) (es_p_min d)
         else charging_level d)"
    using es_take_action_level(1) [OF t] d' by simp
next
  assume a: "0 \<le> a \<and> a \<le> 5 \<and> es_p_max d \<noteq> 0 \<and> es_max_allowed_power d \<noteq> 0"
  obtain act where act: "EFLEXEnergyStorageAgentTransition_of a = Inr act"
    using EFLEXEnergyStorageAgentTransition_of_range [of a] a by blast
  obtain d1 where t: "EFlexEnergyStorageAgent_take_action d act = Inr d1"
    using es_take_action_total [of d act] a by blast
  have "es_max_allowed_power d1 \<noteq> 0"
    using es_take_action_level(5) [OF t] a by simp
  then obtain ob where "EFlexEnergyStorageAgent_get_obs d1 = Inr ob"
    using es_get_obs_total by blast
  then show "\<exists>ob r eo d'. EFlexEnergyStorageAgent_step d a = Inr (ob, r, eo, d')"
    using act t by (simp add: EFlexEnergyStorageAgent_step_def Let_def)
qed


theorem C10_charging_level_follows_the_state_before_the_step_witness:
  "charging_level (snd (snd (snd (projr (EFlexEnergyStorageAgent_step
      (es_example\<lparr>es_current_state := ES_Charging, charging_level := 90\<rparr>) 4))))) = 100
   \<and> charging_level (snd (snd (snd (projr (EFlexEnergyStorageAgent_step
      (es_example\<lparr>es_current_state := ES_Discharging, charging_level := 90\<rparr>) 1))))) = 65
   \<and> charging_level (snd (snd (snd (projr (EFlexEnergyStorageAgent_step
      (es_example\<lparr>charging_level := 90\<rparr>) 3))))) = 90"
proof -
  let ?c = "es_example\<lparr>es_current_state := ES_Charging, charging_level := 90\<rparr>"
  let ?d = "es_example\<lparr>es_current_state := ES_Discharging, charging_level := 90\<rparr>"
  let ?s = "es_example\<lparr>charging_level := 90\<rparr>"
  note C = C10_charging_level_follows_the_state_before_the_step [of ?c 4]
  note D = C10_charging_level_follows_the_state_before_the_step [of ?d 1]
  note S = C10_charging_level_follows_the_state_before_the_step [of ?s 3]
  have hc: "(0::int) \<le> 4 \<and> (4::int) \<le> 5 \<and> es_p_max ?c \<noteq> 0 \<and> es_max_allowed_power ?c \<noteq> 0"
    and hd: "(0::int) \<le> 1 \<and> (1::int) \<le> 5 \<and> es_p_max ?d \<noteq> 0 \<and> es_max_allowed_power ?d \<noteq> 0"
    and hs: "(0::int) \<le> 3 \<and> (3::int) \<le> 5 \<and> es_p_max ?s \<noteq> 0 \<and> es_max_allowed_power ?s \<noteq> 0"
    by (simp_all add: es_example_def)
  from C hc obtain ob r eo d' where c: "EFlexEnergyStorageAgent_step ?c 4 = Inr (ob, r, eo, d')"
    by blast
  with C have "charging_level d' = 100"
    by (simp add: es_example_def)
  moreover from D hd obtain ob2 r2 eo2 d2 where
    d: "EFlexEnergyStorageAgent_step ?d 1 = Inr (ob2, r2, eo2, d2)"
    by blast
  with D have "charging_level d2 = 65"
    by (simp add: es_example_def)
  moreover from S hs obtain ob3 r3 eo3 d3 where
    s: "EFlexEnergyStorageAgent_step ?s 3 = Inr (ob3, r3, eo3, d3)"
    by blast
  with S have "charging_level d3 = 90"
    by (simp add: es_example_def)
  ultimately show ?thesis
    using c d s by simp
qed

lemma es_example_four_charges:
  "EFlexEnergyStorageAgent_steps es_example [3, 3, 3, 3] =
     Inr ([(1 / 10, 0), (0, 25), (7 / 32, 50), (3 / 8, 75)],
          es_example\<lparr>es_current_state := ES_Charging, es_current_reward := 3 / 8,
                      es_currentStep := 4, charging_level := 75\<rparr>)"
  by (simp add: es_example_def es_eval)

text \<open>
  Claim C5, as amended. The storage device with \<^verbatim>\<open>p_min = 0\<close>, \<^verbatim>\<open>p_max = 100\<close>,
  \<^verbatim>\<open>p_slope = 25\<close>, freshly constructed, takes four Charge actions (index 3). The first
  one switches from Stopped to Charging, returns the fixed reward 0.1 and leaves
  \<^verbatim>\<open>charging_level\<close> at 0. Each of the next three returns
  \<^verbatim>\<open>0.5 * (1 - (100 - cl) ** 2 / 100 ** 2)\<close> at the level before the increment, that is
  0, 0.21875 and 0.375, and the level goes through 25, 50 and 75.
\<close>

theorem C5_four_charges_from_a_fresh_storage:
  "EFlexEnergyStorageAgent_init 0 100 25 100 = Inr es_example
   \<and> map_sum id fst (EFlexEnergyStorageAgent_steps es_example [3, 3, 3, 3]) =
       Inr [(0.1, 0),
            (0.5 * (1 - (100 - 0) ^ 2 / 100 ^ 2), 25),
            (0.5 * (1 - (100 - 25) ^ 2 / 100 ^ 2), 50),
            (0.5 * (1 - (100 - 50) ^ 2 / 100 ^ 2), 75)]
   \<and> map_sum id fst (EFlexEnergyStorageAgent_steps es_example [3, 3, 3, 3]) =
       Inr [(0.1, 0), (0, 25), (0.21875, 50), (0.375, 75)]"
  by (simp only: es_example_init es_example_four_charges) simp

text \<open>
  Claim C5 as stated fails: the levels after the four steps are 0, 25, 50, 75 and not
  25, 50, 75, 100, and the first reward is 0.1, which is neither the claimed 0.375 nor
  the quadratic term at the level 0 before the step.
\<close>

theorem C5_four_charges_counterexample:
  "map snd (fst (projr (EFlexEnergyStorageAgent_steps es_example [3, 3, 3, 3])))
     = [0, 25, 50, 75]
   \<and> map snd (fst (projr (EFlexEnergyStorageAgent_steps es_example [3, 3, 3, 3])))
     \<noteq> [25, 50, 75, 100]
   \<and> map fst (fst (projr (EFlexEnergyStorageAgent_steps es_example [3, 3, 3, 3])))
     = [0.1, 0, 0.21875, 0.375]
   \<and> (0.1 :: real) \<noteq> 0.375
   \<and> (0.1 :: real) \<noteq> 0.5 * (1 - (100 - 0) ^ 2 / 100 ^ 2)"
  by (simp only: es_example_four_charges) simp

text \<open>
  Claim C6 at a storage device: \<^verbatim>\<open>reset()\<close> after two Charge actions leaves
  \<^verbatim>\<open>charging_level\<close> at 25, while the freshly constructed device has level 0, and two
  further Charge actions return other rewards and levels than on the fresh device.
\<close>

theorem C6_storage_reset_keeps_charging_level:
  "EFlexEnergyStorageAgent_init 0 100 25 100 = Inr es_example
   \<and> map_sum id snd (EFlexEnergyStorageAgent_steps es_example [3, 3]) =
       Inr (es_example\<lparr>es_current_state := ES_Charging, es_currentStep := 2,
                        charging_level := 25\<rparr>)
   \<and> map_sum id snd (EFlexEnergyStorageAgent_reset
        (es_example\<lparr>es_current_state := ES_Charging, es_currentStep := 2,
                     charging_level := 25\<rparr>)) =
       Inr (es_example\<lparr>charging_level := 25\<rparr>)
   \<and> es_example\<lparr>charging_level := 25\<rparr> \<noteq> es_example
   \<and> map_sum id fst (EFlexEnergyStorageAgent_steps (es_example\<lparr>charging_level := 25\<rparr>) [3, 3])
       = Inr [(0.1, 25), (0.21875, 50)]
   \<and> map_sum id fst (EFlexEnergyStorageAgent_steps es_example [3, 3])
       = Inr [(0.1, 0), (0, 25)]"
  by (simp add: es_example_init) (simp add: es_example_def es_eval)

subsection \<open>The grid device\<close>

lemmas mg_eval =
  EFLEXEnergyMainGridAgent_step_def EFLEXEnergyMainGridAgent_take_action_def
  EFLEXEnergyMainGridAgent_get_obs_def EFLEXEnergyMainGridAgent_get_done_def
  EFLEXEnergyMainGridAgent_current_power_def EFLEXEnergyMainGridAgent_obs_len_def
  EFLEXEnergyMainGridAgentState_members_def EFLEXEnergyMainGridAgentTransition_of_def
  EFLEXEnergyMainGridAgent_reset_def mg_goto_def py_div_def Let_def

lemma mg_example_init: "EFLEXEnergyMainGridAgent_init 0 50 0 100 = Inr mg_example"
  by (simp add: EFLEXEnergyMainGridAgent_init_def mg_example_def mg_eval)

lemma mg_step_in_Aborted:
  assumes "mg_current_state d = MG_Aborted" and "mg_max_allowed_power d \<noteq> 0"
    and "0 \<le> a" and "a \<le> 5"
  shows "\<exists>ob d'. EFLEXEnergyMainGridAgent_step d a =
            Inr (ob, (if a = 2 then mg_current_reward d else 0), True, d')
          \<and> mg_current_state d' = MG_Aborted
          \<and> mg_max_allowed_power d' = mg_max_allowed_power d
          \<and> mg_current_reward d' = (if a = 2 then mg_current_reward d else 0)
          \<and> EFLEXEnergyMainGridAgent_current_power d' = 0"
proof -
  have "a = 0 \<or> a = 1 \<or> a = 2 \<or> a = 3 \<or> a = 4 \<or> a = 5"
    using assms(3,4) by arith
  then show ?thesis
    using assms(1,2) by (auto simp: mg_eval)
qed

text \<open>
  What holds of a grid device once it is Aborted: every further step, for every action of
  its alphabet, leaves it Aborted, returns \<^verbatim>\<open>episode_over\<close> true and has
  \<^verbatim>\<open>current_power\<close> 0. The reward returned is 0 for every action but Clear (index 2):
  the branch of Clear is \<^verbatim>\<open>pass\<close>, so it returns the reward stored before it. The
  rewards of a run are the stored reward for as long as the actions are Clear, and 0 from
  the first other action on.
\<close>

lemma grid_stays_Aborted:
  assumes "mg_current_state d = MG_Aborted" and "mg_max_allowed_power d \<noteq> 0"
    and "\<forall>a\<in>set acts. 0 \<le> a \<and> a \<le> 5"
  shows "\<exists>d'. EFLEXEnergyMainGridAgent_steps d acts =
            Inr (map (\<lambda>r. (MG_Aborted, r, True, 0))
                   (replicate (length (takeWhile (\<lambda>a. a = 2) acts)) (mg_current_reward d)
                    @ replicate (length acts - length (takeWhile (\<lambda>a. a = 2) acts)) 0),
                 d')
          \<and> mg_current_state d' = MG_Aborted"
  using assms
proof (induction acts arbitrary: d)
  case Nil
  then show ?case by simp
next
  case (Cons a acts)
  from Cons.prems(3) have a: "0 \<le> a" "a \<le> 5" and rest: "\<forall>a\<in>set acts. 0 \<le> a \<and> a \<le> 5"
    by simp_all
  from mg_step_in_Aborted [OF Cons.prems(1,2) a] obtain ob d1 where
    s: "EFLEXEnergyMainGridAgent_step d a =
          Inr (ob, (if a = 2 then mg_current_reward d else 0), True, d1)"
    and st: "mg_current_state d1 = MG_Aborted"
    and mx: "mg_max_allowed_power d1 = mg_max_allowed_power d"
    and rw: "mg_current_reward d1 = (if a = 2 then mg_current_reward d else 0)"
    and pw: "EFLEXEnergyMainGridAgent_current_power d1 = 0"
    by blast
  have mx1: "mg_max_allowed_power d1 \<noteq> 0"
    using mx Cons.prems(2) by simp
  from Cons.IH [OF st mx1 rest] obtain d' where
    r: "EFLEXEnergyMainGridAgent_steps d1 acts =
          Inr (map (\<lambda>r. (MG_Aborted, r, True, 0))
                 (replicate (length (takeWhile (\<lambda>a. a = 2) acts)) (mg_current_reward d1)
                  @ replicate (length acts - length (takeWhile (\<lambda>a. a = 2) acts)) 0),
               d')"
    and st': "mg_current_state d' = MG_Aborted"
    by blast
  show ?case
  proof (cases "a = 2")
    case True
    then show ?thesis
      using s r st st' rw pw
      by (simp add: Suc_diff_le length_takeWhile_le)
  next
    case False
    have "replicate (length (takeWhile (\<lambda>a. a = 2) acts)) (0::real)
            @ replicate (length acts - length (takeWhile (\<lambda>a. a = 2) acts)) 0
          = replicate (length acts) 0"
      using length_takeWhile_le [of "\<lambda>a. a = 2" acts]
      by (simp add: replicate_add [symmetric] del: replicate_add)
    then show ?thesis
      using False s r st st' rw pw by simp
  qed
qed

text \<open>
  Claim C8 says that every step of an Aborted grid device returns the reward 0.0, Clear
  included. The code at a fresh grid device that is aborted (index 1) and then sent Clear
  (index 2): both steps leave it Aborted, return \<^verbatim>\<open>episode_over\<close> true and have power 0,
  but the Clear step returns -0.1, the reward that the Abort step stored. The other
  branch of Aborted assigns 0.0: after Abort, the action Stop (index 3) returns 0.
\<close>

theorem C8_clear_after_abort_returns_stale_reward:
  "EFLEXEnergyMainGridAgent_init 0 50 0 100 = Inr mg_example
   \<and> map_sum id fst (EFLEXEnergyMainGridAgent_steps mg_example [1, 2])
       = Inr [(MG_Aborted, - 0.1, True, 0), (MG_Aborted, - 0.1, True, 0)]
   \<and> map_sum id fst (EFLEXEnergyMainGridAgent_steps mg_example [1, 3])
       = Inr [(MG_Aborted, - 0.1, True, 0), (MG_Aborted, 0, True, 0)]
   \<and> (- 0.1 :: real) \<noteq> 0.0"
  by (simp add: mg_example_init) (simp add: mg_example_def mg_eval)

subsection \<open>Observations\<close>

lemma one_hot_layout:
  fixes q :: real
  assumes "v < m - 1"
  shows "length ((replicate m 0)[v := 1, m - 1 := q]) = m"
    and "(replicate m 0)[v := 1, m - 1 := q] ! v = 1"
    and "(replicate m 0)[v := 1, m - 1 := q] ! (m - 1) = q"
    and "\<forall>k<m - 1. k \<noteq> v \<longrightarrow> (replicate m 0)[v := 1, m - 1 := q] ! k = 0"
  using assms by (simp_all add: nth_list_update)

lemma EFLEXAgentState_value_less: "EFLEXAgentState_value s < 11"
  by (cases s) simp_all

lemma EFLEXEnergyStorageAgentState_value_less: "EFLEXEnergyStorageAgentState_value s < 4"
  by (cases s) simp_all

lemma EFLEXEnergyGeneratorAgentState_value_less: "EFLEXEnergyGeneratorAgentState_value s < 3"
  by (cases s) simp_all

lemma EFLEXEnergyMainGridAgentState_value_less: "EFLEXEnergyMainGridAgentState_value s < 5"
  by (cases s) simp_all

lemma EFLEXEnergyMainGridAgentState_value_4:
  "EFLEXEnergyMainGridAgentState_value s = 4 \<longleftrightarrow> s = MG_Selling"
  by (cases s) simp_all

lemma production_obs:
  assumes "max_allowed_power d \<noteq> 0"
  shows "EFlexAgent_get_obs d =
     Inr ((replicate EFlexAgent_obs_len 0)[EFLEXAgentState_value (current_state d) := 1,
            EFlexAgent_obs_len - 1 := EFlexAgent_current_power d / max_allowed_power d])"
  using assms by (simp add: EFlexAgent_get_obs_def py_div_def Let_def)

lemma storage_obs:
  assumes "es_max_allowed_power d \<noteq> 0"
  shows "EFlexEnergyStorageAgent_get_obs d =
     Inr ((replicate EFlexEnergyStorageAgent_obs_len 0)
            [EFLEXEnergyStorageAgentState_value (es_current_state d) := 1,
             EFlexEnergyStorageAgent_obs_len - 1 :=
               EFlexEnergyStorageAgent_current_power d / es_max_allowed_power d])"
  using assms by (simp add: EFlexEnergyStorageAgent_get_obs_def py_div_def Let_def)

lemma generator_obs:
  assumes "eg_max_allowed_power d \<noteq> 0"
  shows "EFLEXEnergyGeneratorAgent_get_obs d =
     Inr ((replicate EFLEXEnergyGeneratorAgent_obs_len 0)
            [EFLEXEnergyGeneratorAgentState_value (eg_current_state d) := 1,
             EFLEXEnergyGeneratorAgent_obs_len - 1 :=
               EFLEXEnergyGeneratorAgent_current_power d / eg_max_allowed_power d])"
  using assms by (simp add: EFLEXEnergyGeneratorAgent_get_obs_def py_div_def Let_def)

lemma grid_obs:
  assumes "mg_max_allowed_power d \<noteq> 0"
  shows "EFLEXEnergyMainGridAgent_get_obs d =
     Inr ((replicate EFLEXEnergyMainGridAgent_obs_len 0)
            [EFLEXEnergyMainGridAgentState_value (mg_current_state d) := 1,
             EFLEXEnergyMainGridAgent_obs_len - 1 :=
               EFLEXEnergyMainGridAgent_current_power d / mg_max_allowed_power d])"
  using assms by (simp add: EFLEXEnergyMainGridAgent_get_obs_def py_div_def Let_def)

lemma obs_len_values:
  "EFlexAgent_obs_len = 13" "EFlexEnergyStorageAgent_obs_len = 6"
  "EFLEXEnergyGeneratorAgent_obs_len = 5" "EFLEXEnergyMainGridAgent_obs_len = 6"
  by (simp_all add: EFlexAgent_obs_len_def EFlexEnergyStorageAgent_obs_len_def
      EFLEXEnergyGeneratorAgent_obs_len_def EFLEXEnergyMainGridAgent_obs_len_def
      EFLEXAgentState_members_def EFLEXEnergyStorageAgentState_members_def
      EFLEXEnergyGeneratorAgentState_members_def EFLEXEnergyMainGridAgentState_members_def)

text \<open>
  Claim C7, as amended. For a device of any class in any state, with
  \<^verbatim>\<open>max_allowed_power\<close> not zero: the observation has length (number of states) + 2,
  holds 1.0 at the index equal to the value of the current state and 0.0 at every other
  index but the last, and holds \<^verbatim>\<open>current_power / max_allowed_power\<close> in the last
  slot. So the second-to-last slot holds 0 for the production, storage and generator
  classes and for a grid device that is not Selling; the value of Selling is 4, the
  index of that slot, and a Selling grid device has 1.0 there.
\<close>

theorem C7_observation_layout:
  assumes "agent_max_allowed_power a \<noteq> 0"
  shows "\<exists>ob. agent_get_obs a = Inr ob
     \<and> length ob = agent_n_states a + 2
     \<and> ob ! agent_state_value a = 1
     \<and> (\<forall>k < agent_n_states a + 1. k \<noteq> agent_state_value a \<longrightarrow> ob ! k = 0)
     \<and> ob ! (agent_n_states a + 1) = agent_current_power a / agent_max_allowed_power a
     \<and> ob ! agent_n_states a =
         (case a of MainGrid d \<Rightarrow> if mg_current_state d = MG_Selling then 1 else 0
          | _ \<Rightarrow> 0)"
proof (cases a)
  case (Production d)
  let ?v = "EFLEXAgentState_value (current_state d)"
  let ?m = EFlexAgent_obs_len
  have m: "?m = 13" by (rule obs_len_values)
  have v: "?v < ?m - 1" and ne: "?m - 2 \<noteq> ?v" and lt: "?m - 2 < ?m - 1"
    using EFLEXAgentState_value_less [of "current_state d"] m by simp_all
  note L = one_hot_layout [OF v]
  have "agent_n_states a + 2 = ?m" "agent_n_states a + 1 = ?m - 1" "agent_n_states a = ?m - 2"
    using Production m by (simp_all add: EFLEXAgentState_members_def)
  then show ?thesis
    using Production assms L L(4) [rule_format, OF lt ne]
    by (simp add: production_obs)
next
  case (Storage d)
  let ?v = "EFLEXEnergyStorageAgentState_value (es_current_state d)"
  let ?m = EFlexEnergyStorageAgent_obs_len
  have m: "?m = 6" by (rule obs_len_values)
  have v: "?v < ?m - 1" and ne: "?m - 2 \<noteq> ?v" and lt: "?m - 2 < ?m - 1"
    using EFLEXEnergyStorageAgentState_value_less [of "es_current_state d"] m by simp_all
  note L = one_hot_layout [OF v]
  have "agent_n_states a + 2 = ?m" "agent_n_states a + 1 = ?m - 1" "agent_n_states a = ?m - 2"
    using Storage m by (simp_all add: EFLEXEnergyStorageAgentState_members_def)
  then show ?thesis
    using Storage assms L L(4) [rule_format, OF lt ne]
    by (simp add: storage_obs)
next
  case (Generator d)
  let ?v = "EFLEXEnergyGeneratorAgentState_value (eg_current_state d)"
  let ?m = EFLEXEnergyGeneratorAgent_obs_len
  have m: "?m = 5" by (rule obs_len_values)
  have v: "?v < ?m - 1" and ne: "?m - 2 \<noteq> ?v" and lt: "?m - 2 < ?m - 1"
    using EFLEXEnergyGeneratorAgentState_value_less [of "eg_current_state d"] m by simp_all
  note L = one_hot_layout [OF v]
  have "agent_n_states a + 2 = ?m" "agent_n_states a + 1 = ?m - 1" "agent_n_states a = ?m - 2"
    using Generator m by (simp_all add: EFLEXEnergyGeneratorAgentState_members_def)
  then show ?thesis
    using Generator assms L L(4) [rule_format, OF lt ne]
    by (simp add: generator_obs)
next
  case (MainGrid d)
  let ?v = "EFLEXEnergyMainGridAgentState_value (mg_current_state d)"
  let ?m = EFLEXEnergyMainGridAgent_obs_len
  have m: "?m = 6" by (rule obs_len_values)
  have v: "?v < ?m - 1" and lt: "?m - 2 < ?m - 1"
    using EFLEXEnergyMainGridAgentState_value_less [of "mg_current_state d"] m by simp_all
  have sell: "?v = ?m - 2 \<longleftrightarrow> mg_current_state d = MG_Selling"
    unfolding m using EFLEXEnergyMainGridAgentState_value_4 [of "mg_current_state d"] by simp
  note L = one_hot_layout [OF v]
  have n: "agent_n_states a + 2 = ?m" "agent_n_states a + 1 = ?m - 1" "agent_n_states a = ?m - 2"
    using MainGrid m by (simp_all add: EFLEXEnergyMainGridAgentState_members_def)
  show ?thesis
  proof (cases "mg_current_state d = MG_Selling")
    case True
    then have "?v = ?m - 2" using sell by simp
    then show ?thesis
      using n MainGrid assms L True by (simp add: grid_obs)
  next
    case False
    then have "?m - 2 \<noteq> ?v" using sell by simp
    then show ?thesis
      using n MainGrid assms L L(4) [rule_format, OF lt] False by (simp add: grid_obs)
  qed
qed


theorem C7_observation_layout_witness:
  "length (projr (agent_get_obs (Production prod_example))) = 13
   \<and> projr (agent_get_obs (Production prod_example)) ! 0 = 1
   \<and> projr (agent_get_obs (Production prod_example)) ! 11 = 0
   \<and> length (projr (agent_get_obs (MainGrid (mg_example\<lparr>mg_current_state := MG_Selling\<rparr>)))) = 6
   \<and> projr (agent_get_obs (MainGrid (mg_example\<lparr>mg_current_state := MG_Selling\<rparr>))) ! 4 = 1
   \<and> projr (agent_get_obs (MainGrid (mg_example\<lparr>mg_current_state := MG_Selling\<rparr>))) ! 5 = 1 / 2"
proof -
  let ?p = "Production prod_example"
  let ?g = "MainGrid (mg_example\<lparr>mg_current_state := MG_Selling\<rparr>)"
  have hp: "agent_max_allowed_power ?p \<noteq> 0" and hg: "agent_max_allowed_power ?g \<noteq> 0"
    by (simp_all add: prod_example_def mg_example_def)
  have np: "agent_n_states ?p = 11" and vp: "agent_state_value ?p = 0"
    and ng: "agent_n_states ?g = 4" and vg: "agent_state_value ?g = 4"
    and pg: "agent_current_power ?g / agent_max_allowed_power ?g = 1 / 2"
    by (simp_all add: prod_example_def mg_example_def EFLEXAgentState_members_def
        EFLEXEnergyMainGridAgentState_members_def EFLEXEnergyMainGridAgent_current_power_def)
  from C7_observation_layout [OF hp] obtain ob where
    "agent_get_obs ?p = Inr ob" "length ob = agent_n_states ?p + 2"
    "ob ! agent_state_value ?p = 1"
    "ob ! agent_n_states ?p = (case ?p of MainGrid d \<Rightarrow>
        if mg_current_state d = MG_Selling then 1 else 0 | _ \<Rightarrow> 0)"
    by blast
  moreover from C7_observation_layout [OF hg] obtain ob' where
    "agent_get_obs ?g = Inr ob'" "length ob' = agent_n_states ?g + 2"
    "ob' ! agent_n_states ?g = (case ?g of MainGrid d \<Rightarrow>
        if mg_current_state d = MG_Selling then 1 else 0 | _ \<Rightarrow> 0)"
    "ob' ! (agent_n_states ?g + 1) = agent_current_power ?g / agent_max_allowed_power ?g"
    by blast
  ultimately show ?thesis
    unfolding np vp ng vg pg by simp
qed

text \<open>
  Claim C7 as stated fails at the grid device: a fresh one that is sent Sell (index 5) is
  Selling, and the observation this step returns has 1.0 in its second-to-last slot.
\<close>

theorem C7_selling_grid_counterexample:
  "map_sum id fst (EFLEXEnergyMainGridAgent_step mg_example 5) = Inr [0, 0, 0, 0, 1, 1 / 2]
   \<and> [0, 0, 0, 0, 1, 1 / 2 :: real] ! (length [0, 0, 0, 0, 1, 1 / 2 :: real] - 2) = 1
   \<and> (1 :: real) \<noteq> 0"
  by (simp add: mg_example_def EFLEXEnergyMainGridAgent_step_def
      EFLEXEnergyMainGridAgent_take_action_def EFLEXEnergyMainGridAgent_get_obs_def
      EFLEXEnergyMainGridAgent_get_done_def EFLEXEnergyMainGridAgent_current_power_def
      EFLEXEnergyMainGridAgent_obs_len_def EFLEXEnergyMainGridAgentState_members_def
      EFLEXEnergyMainGridAgentTransition_of_def mg_goto_def py_div_def Let_def)

subsection \<open>The coordinator\<close>

lemmas co_eval =
  step_def step_before_budget_def step_agent_def TOUGenerator_step_def LoadProfile_step_def
  EFlexAgent_step_def EFlexAgent_take_action_def EFlexAgent_get_obs_def
  EFlexAgent_get_done_def EFlexAgent_get_reward_def EFlexAgent_current_power_def
  EFlexAgent_obs_len_def EFLEXAgentState_members_def EFLEXAgentTransition_of_def
  MAX_PRODUCTION_STEP_def py_div_def goto_def mark_start_def np_mean_def Let_def

lemma env_example_configure:
  "configure True 100 50 [0] [1] [0] [100] 0
     [(EFlexAgentPConstant, 0, 30, 0), (EFlexAgentPConstant, 0, 30, 0)] = Inr env_example"
  by (simp add: configure_def TOUGenerator_init_def LoadProfile_init_def EFlexAgent_init_def
      EFlexAgent_reset_def reset_def TOUGenerator_reset_def LoadProfile_reset_def
      env_example_def pc_example_def co_eval)

lemma env_example_two_ticks:
  "map_sum id fst (step_many env_example [ [3, 3], [10, 10] ]) =
     Inr [([0.1, 0.1], False), ([0.5, 0.5], True)]"
  by (simp add: env_example_def pc_example_def co_eval numeral_2_eq_2)

lemma step_Inr:
  assumes "step c action = Inr (obs, rs, done, info_n, c')"
  shows "\<exists>b. step_before_budget c action = Inr b
     \<and> obs = obs_n (bb_locals b)
     \<and> rs = (if sum_list (current_power_n (bb_locals b)) * bb_current_energy_price b
                  > energy_cost_budget c
             then map (\<lambda>r. r - 0.5) (bb_reward_n b) else bb_reward_n b)
     \<and> done = (if sum_list (current_power_n (bb_locals b)) * bb_current_energy_price b
                    > energy_cost_budget c
               then True else bb_done b)
     \<and> current_system_power c' = sum_list (current_power_n (bb_locals b))
     \<and> info_current_energy_price info_n = bb_current_energy_price b
     \<and> info_current_system_power info_n = sum_list (current_power_n (bb_locals b))
     \<and> global_reward c' = np_mean rs
     \<and> agents c' = stepped (bb_locals b)
     \<and> current_winner c' = winner (bb_locals b)"
  using assms by (auto simp: step_def Let_def split: sum.splits)

lemma step_before_budget_Inr:
  assumes "step_before_budget c action = Inr b"
  shows "\<exists>l. step_agents action 0 (agents c)
             \<lparr>obs_n = [], reward_n = [], done_n = [], current_power_n = [],
              production = 0, winner = current_winner c, stepped = []\<rparr> = Inr l
     \<and> bb_locals b = l
     \<and> bb_reward_n b =
         (if shared_reward c then replicate (env_n c) (sum_list (reward_n l)) else reward_n l)
     \<and> bb_done b = (0 < sum_list (map (\<lambda>b. if b then 1 else (0::nat)) (done_n l)))"
  using assms by (auto simp: step_before_budget_def Let_def split: sum.splits prod.splits)


lemma agent_step_winner:
  assumes "agent_step agent a = Inr (ob, sr, eo, agent')"
  shows "(case (agent, agent') of
            (Production d0, Production d) \<Rightarrow> (production_count d \<ge> MAX_PRODUCTION_STEP \<longrightarrow> eo)
          | (Production d0, _) \<Rightarrow> False
          | (_, Production d) \<Rightarrow> False
          | _ \<Rightarrow> True)"
  using assms
  by (cases agent)
     (auto simp: EFlexAgent_step_def EFlexAgent_get_done_def Let_def
           split: sum.splits prod.splits)

lemma step_agent_Inr:
  assumes "step_agent action i agent l = Inr l1"
  shows "reward_n l1 = reward_n l @ [last (reward_n l1)]
     \<and> done_n l1 = done_n l @ [last (done_n l1)]
     \<and> stepped l1 = stepped l @ [last (stepped l1)]
     \<and> winner l1 = winner l @ (if is_winner (last (stepped l1)) then [i] else [])
     \<and> (is_winner (last (stepped l1)) \<longrightarrow> last (done_n l1))"
proof -
  from assms have i: "i < length action"
    by (simp add: step_agent_def split: if_splits)
  from assms i obtain ob sr eo agent' where
    a: "agent_step agent (action ! i) = Inr (ob, sr, eo, agent')"
    by (auto simp: step_agent_def split: sum.splits)
  note w = agent_step_winner [OF a]
  show ?thesis
  proof (cases agent)
    case (Production d0)
    with w obtain d where d: "agent' = Production d"
      and e: "production_count d \<ge> MAX_PRODUCTION_STEP \<longrightarrow> eo"
      by (cases agent') auto
    have "step_agent action i (Production d0) l = Inr l1"
      using assms Production by simp
    then show ?thesis
      using i a [unfolded Production d] e
      unfolding step_agent_def
      by (auto simp: Let_def split: if_splits)
  next
    case (Storage d0)
    with w have n: "\<not> is_winner agent'"
      by (cases agent') auto
    have "step_agent action i (Storage d0) l = Inr l1"
      using assms Storage by simp
    then show ?thesis
      using i a [unfolded Storage] n
      unfolding step_agent_def
      by (cases agent') (auto simp: Let_def split: if_splits)
  next
    case (Generator d0)
    with w have n: "\<not> is_winner agent'"
      by (cases agent') auto
    have "step_agent action i (Generator d0) l = Inr l1"
      using assms Generator by simp
    then show ?thesis
      using i a [unfolded Generator] n
      unfolding step_agent_def
      by (cases agent') (auto simp: Let_def split: if_splits)
  next
    case (MainGrid d0)
    with w have n: "\<not> is_winner agent'"
      by (cases agent') auto
    have "step_agent action i (MainGrid d0) l = Inr l1"
      using assms MainGrid by simp
    then show ?thesis
      using i a [unfolded MainGrid] n
      unfolding step_agent_def
      by (cases agent') (auto simp: Let_def split: if_splits)
  qed
qed

lemma step_agents_Inr:
  assumes "step_agents action i as l = Inr l'"
  shows "\<exists>rs dn new.
     reward_n l' = reward_n l @ rs \<and> length rs = length as
     \<and> done_n l' = done_n l @ dn
     \<and> stepped l' = stepped l @ new \<and> length new = length as
     \<and> winner l' = winner l @ winner_indices i new
     \<and> (winner_indices i new \<noteq> [] \<longrightarrow> True \<in> set dn)"
  using assms
proof (induction as arbitrary: i l)
  case Nil
  then show ?case by simp
next
  case (Cons agent rest)
  from Cons.prems obtain l1 where b: "step_agent action i agent l = Inr l1"
    and r: "step_agents action (Suc i) rest l1 = Inr l'"
    by (auto split: sum.splits)
  define r0 eo ag where "r0 = last (reward_n l1)" and "eo = last (done_n l1)"
    and "ag = last (stepped l1)"
  from step_agent_Inr [OF b] have
    1: "reward_n l1 = reward_n l @ [r0]" "done_n l1 = done_n l @ [eo]"
       "stepped l1 = stepped l @ [ag]"
       "winner l1 = winner l @ (if is_winner ag then [i] else [])"
       "is_winner ag \<longrightarrow> eo"
    unfolding r0_def eo_def ag_def by blast+
  from Cons.IH [OF r] obtain rs dn new where
    2: "reward_n l' = reward_n l1 @ rs" "length rs = length rest"
       "done_n l' = done_n l1 @ dn" "stepped l' = stepped l1 @ new" "length new = length rest"
       "winner l' = winner l1 @ winner_indices (Suc i) new"
       "winner_indices (Suc i) new \<noteq> [] \<longrightarrow> True \<in> set dn"
    by blast
  show ?case
    apply (rule exI [of _ "r0 # rs"], rule exI [of _ "eo # dn"], rule exI [of _ "ag # new"])
    using 1 2 by auto
qed


text \<open>
  Claim C1. When a tick returns and the system power it stored times the price of the
  tick exceeds the budget, every entry of the returned reward vector is the entry before
  the budget check minus 0.5, in the shared and in the individual mode alike, and the
  returned flag \<^verbatim>\<open>done\<close> is true whatever the devices reported.
\<close>

theorem C1_budget_violation_penalty:
  assumes "step c action = Inr (obs, rs, done, info_n, c')"
    and "current_system_power c' * info_current_energy_price info_n > energy_cost_budget c"
  shows "\<exists>b. step_before_budget c action = Inr b
     \<and> rs = map (\<lambda>r. r - 0.5) (bb_reward_n b)
     \<and> length rs = length (bb_reward_n b)
     \<and> (\<forall>i<length rs. rs ! i = bb_reward_n b ! i - 0.5)
     \<and> done
     \<and> bb_reward_n b =
          (if shared_reward c
           then replicate (env_n c) (sum_list (reward_n (bb_locals b)))
           else reward_n (bb_locals b))"
proof -
  from step_Inr [OF assms(1)] obtain b where
    b: "step_before_budget c action = Inr b"
    and rs: "rs = (if sum_list (current_power_n (bb_locals b)) * bb_current_energy_price b
                        > energy_cost_budget c
                   then map (\<lambda>r. r - 0.5) (bb_reward_n b) else bb_reward_n b)"
    and dn: "done = (if sum_list (current_power_n (bb_locals b)) * bb_current_energy_price b
                        > energy_cost_budget c
                     then True else bb_done b)"
    and pw: "current_system_power c' = sum_list (current_power_n (bb_locals b))"
    and pr: "info_current_energy_price info_n = bb_current_energy_price b"
    by blast
  have over: "sum_list (current_power_n (bb_locals b)) * bb_current_energy_price b
                > energy_cost_budget c"
    using assms(2) pw pr by simp
  from step_before_budget_Inr [OF b] have
    sh: "bb_reward_n b =
          (if shared_reward c
           then replicate (env_n c) (sum_list (reward_n (bb_locals b)))
           else reward_n (bb_locals b))"
    by auto
  have "rs = map (\<lambda>r. r - 0.5) (bb_reward_n b)" and "done"
    using rs dn over by simp_all
  then show ?thesis
    using b sh by (intro exI [of _ b]) simp
qed


theorem C1_budget_violation_penalty_witness:
  "map_sum id (fst \<circ> snd) (step (snd (projr (step_many env_example [ [3, 3] ]))) [10, 10])
     = Inr [0.5, 0.5]
   \<and> map_sum id (fst \<circ> snd \<circ> snd) (step (snd (projr (step_many env_example [ [3, 3] ]))) [10, 10])
     = Inr True
   \<and> map_sum id bb_reward_n
        (step_before_budget (snd (projr (step_many env_example [ [3, 3] ]))) [10, 10]) = Inr [1, 1]
   \<and> map_sum id bb_done
        (step_before_budget (snd (projr (step_many env_example [ [3, 3] ]))) [10, 10]) = Inr False"
proof -
  let ?c = "snd (projr (step_many env_example [ [3, 3] ]))"
  have "\<exists>obs rs done info_n c'. step ?c [10, 10] = Inr (obs, rs, done, info_n, c')
          \<and> current_system_power c' = 60 \<and> info_current_energy_price info_n = 1"
    by (auto simp add: env_example_def pc_example_def co_eval)
  then obtain obs rs fin info_n c' where
    s: "step ?c [10, 10] = Inr (obs, rs, fin, info_n, c')"
    and v: "current_system_power c' = 60" "info_current_energy_price info_n = 1"
    by blast
  have e: "energy_cost_budget ?c = 50"
    by (simp add: env_example_def pc_example_def co_eval)
  have h: "current_system_power c' * info_current_energy_price info_n > energy_cost_budget ?c"
    unfolding v e by simp
  have b0: "map_sum id bb_reward_n (step_before_budget ?c [10, 10]) = Inr [1, 1]"
    "map_sum id bb_done (step_before_budget ?c [10, 10]) = Inr False"
    by (simp_all add: env_example_def pc_example_def co_eval numeral_2_eq_2)
  from C1_budget_violation_penalty [OF s h] obtain b where
    "step_before_budget ?c [10, 10] = Inr b" "rs = map (\<lambda>r. r - 0.5) (bb_reward_n b)" "fin"
    by blast
  with b0 have "rs = [0.5, 0.5]" and "fin = True"
    by simp_all
  with s b0 show ?thesis
    by simp
qed

lemma step_before_budget_individual:
  assumes "step_before_budget c action = Inr b"
  shows "step_before_budget (c\<lparr>shared_reward := False\<rparr>) action
           = Inr (b\<lparr>bb_reward_n := reward_n (bb_locals b)\<rparr>)"
  using assms
  by (auto simp: step_before_budget_def Let_def split: sum.splits prod.splits)

lemma step_keeps_registry:
  assumes "step c action = Inr (obs, rs, fin, info_n, c')"
  shows "env_n c' = env_n c" and "length (agents c') = length (agents c)"
proof -
  show "env_n c' = env_n c"
    using assms by (auto simp: step_def Let_def split: sum.splits)
  from step_Inr [OF assms] obtain b where
    b: "step_before_budget c action = Inr b" and ag: "agents c' = stepped (bb_locals b)"
    by blast
  from step_before_budget_Inr [OF b] obtain l where
    l: "step_agents action 0 (agents c)
             \<lparr>obs_n = [], reward_n = [], done_n = [], current_power_n = [],
              production = 0, winner = current_winner c, stepped = []\<rparr> = Inr l"
    and bl: "bb_locals b = l"
    by auto
  from step_agents_Inr [OF l] have "length (stepped l) = length (agents c)"
    by auto
  then show "length (agents c') = length (agents c)"
    using ag bl by simp
qed

lemma reset_agents_length:
  "reset_agents as = Inr (obs, as') \<Longrightarrow> length as' = length as"
  by (induction as arbitrary: obs as') (auto split: sum.splits prod.splits)

lemma reset_keeps_registry:
  assumes "reset c = Inr (obs, c')"
  shows "env_n c' = env_n c" and "length (agents c') = length (agents c)"
  using assms reset_agents_length
  by (auto simp: reset_def split: sum.splits prod.splits)

lemma configure_registry:
  assumes "configure shared mx budget t_steps t_values l_steps l_values tol confs = Inr c"
  shows "env_n c = length (agents c)"
proof -
  from assms obtain c0 where m: "map_sum id snd (reset c0) = Inr c"
    and n: "env_n c0 = length (agents c0)"
    by (auto simp: configure_def split: sum.splits)
  from m obtain obs where r: "reset c0 = Inr (obs, c)"
    by (cases "reset c0") auto
  show ?thesis
    using reset_keeps_registry [OF r] n by simp
qed

lemma reachable_registry: "reachable c \<Longrightarrow> env_n c = length (agents c)"
proof (induction rule: reachable.induct)
  case (configured shared mx budget t_steps t_values l_steps l_values tol confs c)
  then show ?case by (rule configure_registry)
next
  case (ticked c action obs rs fin info_n c')
  then show ?case using step_keeps_registry [OF ticked.hyps(2)] by simp
next
  case (was_reset c obs c')
  then show ?case using reset_keeps_registry [OF was_reset.hyps(2)] by simp
qed

lemma env_example_individual_configure:
  "configure False 100 50 [0] [1] [0] [100] 0
     [(EFlexAgentPConstant, 0, 30, 0), (EFlexAgentPConstant, 0, 30, 0)]
   = Inr (env_example\<lparr>shared_reward := False\<rparr>)"
  by (simp add: configure_def TOUGenerator_init_def LoadProfile_init_def EFlexAgent_init_def
      EFlexAgent_reset_def reset_def TOUGenerator_reset_def LoadProfile_reset_def
      env_example_def pc_example_def co_eval)

text \<open>
  Claim C2. Take a coordinator that \<^verbatim>\<open>configure\<close>, \<^verbatim>\<open>step\<close> and \<^verbatim>\<open>reset\<close> can
  produce, and a tick that reaches the budget check. Under individual rewards the vector
  before the budget check has one reward per device (the blend for production devices).
  Under a shared reward it has one entry per device too, and every entry is the sum of
  those individual rewards of the same tick: the sum, not their mean. Whatever the mode,
  \<^verbatim>\<open>global_reward\<close> after the tick is the sum of the reward vector the tick returns
  divided by its length (nan, here \<open>None\<close>, when there is no device).
\<close>

theorem C2_shared_reward_is_the_sum:
  assumes "reachable c" and "step_before_budget c action = Inr b"
  shows "\<exists>b0. step_before_budget (c\<lparr>shared_reward := False\<rparr>) action = Inr b0
     \<and> length (bb_reward_n b0) = length (agents c)
     \<and> (shared_reward c \<longrightarrow>
          bb_reward_n b = replicate (length (agents c)) (sum_list (bb_reward_n b0))
          \<and> length (bb_reward_n b) = length (agents c)
          \<and> (\<forall>i<length (agents c). bb_reward_n b ! i = sum_list (bb_reward_n b0)))
     \<and> (\<not> shared_reward c \<longrightarrow> bb_reward_n b = bb_reward_n b0)
     \<and> (\<forall>obs rs fin info_n c'. step c action = Inr (obs, rs, fin, info_n, c') \<longrightarrow>
          length rs = length (agents c)
          \<and> global_reward c' =
              (if rs = [] then None else Some (sum_list rs / real (length rs))))"
proof -
  let ?b0 = "b\<lparr>bb_reward_n := reward_n (bb_locals b)\<rparr>"
  note n = reachable_registry [OF assms(1)]
  from step_before_budget_Inr [OF assms(2)] obtain l where
    l: "step_agents action 0 (agents c)
             \<lparr>obs_n = [], reward_n = [], done_n = [], current_power_n = [],
              production = 0, winner = current_winner c, stepped = []\<rparr> = Inr l"
    and bl: "bb_locals b = l"
    and br: "bb_reward_n b =
         (if shared_reward c then replicate (env_n c) (sum_list (reward_n l)) else reward_n l)"
    by blast
  from step_agents_Inr [OF l] have len: "length (reward_n l) = length (agents c)"
    by auto
  have lb: "length (bb_reward_n b) = length (agents c)"
    using br len n by simp
  have g: "length rs = length (agents c)
           \<and> global_reward c' = (if rs = [] then None else Some (sum_list rs / real (length rs)))"
    if s: "step c action = Inr (obs, rs, fin, info_n, c')" for obs rs fin info_n c'
  proof -
    from step_Inr [OF s] obtain b' where
      b': "step_before_budget c action = Inr b'"
      and rs: "rs = (if sum_list (current_power_n (bb_locals b')) * bb_current_energy_price b'
                          > energy_cost_budget c
                     then map (\<lambda>r. r - 0.5) (bb_reward_n b') else bb_reward_n b')"
      and m: "global_reward c' = np_mean rs"
      by blast
    from b' assms(2) have "b' = b" by simp
    then have "length rs = length (agents c)"
      using rs lb by simp
    then show ?thesis
      using m by (simp add: np_mean_def)
  qed
  have sh: "bb_reward_n b = replicate (length (agents c)) (sum_list (reward_n l))"
    if "shared_reward c"
    using that br n by simp
  show ?thesis
  proof (intro exI [of _ ?b0] conjI impI allI)
    show "step_before_budget (c\<lparr>shared_reward := False\<rparr>) action = Inr ?b0"
      by (rule step_before_budget_individual [OF assms(2)])
    show "length (bb_reward_n ?b0) = length (agents c)"
      using len bl by simp
    show "bb_reward_n b = replicate (length (agents c)) (sum_list (bb_reward_n ?b0))"
      if "shared_reward c"
      using sh [OF that] bl by simp
    show "length (bb_reward_n b) = length (agents c)" if "shared_reward c"
      by (rule lb)
    show "bb_reward_n b ! i = sum_list (bb_reward_n ?b0)"
      if "shared_reward c" "i < length (agents c)" for i
      using sh [OF that(1)] that(2) bl by simp
    show "bb_reward_n b = bb_reward_n ?b0" if "\<not> shared_reward c"
      using that br bl by simp
    show "length rs = length (agents c)"
      if "step c action = Inr (obs, rs, fin, info_n, c')" for obs rs fin info_n c'
      using g [OF that] by simp
    show "global_reward c' = (if rs = [] then None else Some (sum_list rs / real (length rs)))"
      if "step c action = Inr (obs, rs, fin, info_n, c')" for obs rs fin info_n c'
      using g [OF that] by simp
  qed
qed

theorem C2_shared_reward_is_the_sum_witness:
  "map_sum id bb_reward_n (step_before_budget env_example [3, 0]) = Inr [0.05, 0.05]
   \<and> map_sum id bb_reward_n (step_before_budget (env_example\<lparr>shared_reward := False\<rparr>) [3, 0])
       = Inr [0.05, 0]
   \<and> map_sum id (fst \<circ> snd) (step (env_example\<lparr>shared_reward := False\<rparr>) [3, 0])
       = Inr [0.05, 0]
   \<and> map_sum id (global_reward \<circ> snd \<circ> snd \<circ> snd \<circ> snd)
        (step (env_example\<lparr>shared_reward := False\<rparr>) [3, 0]) = Inr (Some 0.025)"
proof -
  let ?e = "env_example\<lparr>shared_reward := False\<rparr>"
  have re: "reachable env_example"
    by (rule reachable.configured [OF env_example_configure])
  have ri: "reachable ?e"
    by (rule reachable.configured [OF env_example_individual_configure])
  have "\<exists>b. step_before_budget env_example [3, 0] = Inr b"
    by (simp add: env_example_def pc_example_def co_eval)
  then obtain b where b: "step_before_budget env_example [3, 0] = Inr b"
    by blast
  have i: "map_sum id bb_reward_n (step_before_budget ?e [3, 0]) = Inr [0.05, 0]"
    by (simp add: env_example_def pc_example_def co_eval)
  then obtain bi where bi: "step_before_budget ?e [3, 0] = Inr bi"
    by (cases "step_before_budget ?e [3, 0]") auto
  have "\<exists>obs rs fin info_n c'. step ?e [3, 0] = Inr (obs, rs, fin, info_n, c')
          \<and> rs = [0.05, 0]"
    by (auto simp add: env_example_def pc_example_def co_eval)
  then obtain obs rs fin info_n c' where
    s: "step ?e [3, 0] = Inr (obs, rs, fin, info_n, c')" and rs: "rs = [0.05, 0]"
    by blast
  have sh: "shared_reward env_example" and n: "length (agents env_example) = 2"
    and e: "env_example\<lparr>shared_reward := False\<rparr> = ?e"
    by (simp_all add: env_example_def)
  from C2_shared_reward_is_the_sum [OF re b] obtain b0 where
    b0: "step_before_budget ?e [3, 0] = Inr b0"
    and r: "shared_reward env_example \<longrightarrow>
          bb_reward_n b = replicate (length (agents env_example)) (sum_list (bb_reward_n b0))"
    by blast
  from i b0 have "bb_reward_n b0 = [0.05, 0]"
    by simp
  with r sh n have "bb_reward_n b = [0.05, 0.05]"
    by (simp add: numeral_2_eq_2)
  moreover from C2_shared_reward_is_the_sum [OF ri bi] s rs
  have "global_reward c' = Some 0.025"
    by fastforce
  ultimately show ?thesis
    using b i s rs by simp
qed

subsection \<open>The winners of an episode\<close>



lemma winner_indices_empty:
  "winner_indices i as = [] \<longleftrightarrow> (\<forall>a\<in>set as. \<not> is_winner a)"
  by (induction as arbitrary: i) auto

lemma winner_indices_shift:
  "winner_indices i as = [] \<Longrightarrow> winner_indices j as = []"
  by (simp add: winner_indices_empty)








lemma env_single_configure:
  "configure False 100 50 [0] [1] [0] [100] 0 [(EFlexAgentPConstant, 0, 30, 0)]
     = Inr env_single"
  by (simp add: configure_def TOUGenerator_init_def LoadProfile_init_def EFlexAgent_init_def
      EFlexAgent_reset_def reset_def TOUGenerator_reset_def LoadProfile_reset_def
      env_single_def pc_example_def co_eval)






text \<open>
  Outside an episode: a tick taken after the tick that returned done (here the tick
  after the one that completes the twentieth production cycle) finds
  \<^verbatim>\<open>production_count\<close> still at 20 and appends the index 0 again.
\<close>

lemma tick_after_done_appends_again:
  "map_sum id (map snd \<circ> fst) (step_many env_single (winner_ticks @ [ [0] ]))
     = Inr (replicate 59 False @ [True, True])
   \<and> map_sum id (current_winner \<circ> snd) (step_many env_single (winner_ticks @ [ [0] ]))
     = Inr [0, 0]"
  by (simp add: env_single_def pc_example_def winner_ticks_def co_eval eval_nat_numeral)

end
